theory Spec2Isabelle
  imports Complex_Main "HOL-Library.Sublist" "HOL-Library.Multiset" "HOL-Library.AList"
begin

section \<open>JavaScript values and strings\<close>

text \<open>
  The feeds deliver JSON, and the compiled gateway reads properties without checking
  their types, so a field of a parsed entry can hold any JSON scalar or
  \<open>undefined\<close> (the value of a property that is absent). Numbers are modelled as
  reals: JSON has no NaN and no infinities.
\<close>

datatype jsval = JUndefined | JNull | JBool bool | JNum real | JStr string

text \<open>ToBoolean: what \<open>a || b\<close> and \<open>if (a)\<close> test.\<close>

fun truthy :: "jsval \<Rightarrow> bool" where
  "truthy JUndefined = False"
| "truthy JNull = False"
| "truthy (JBool b) = b"
| "truthy (JNum r) = (r \<noteq> 0)"
| "truthy (JStr s) = (s \<noteq> [])"

text \<open>\<open>a || b\<close> on values: the left operand when it is truthy, else the right one.\<close>

definition js_or :: "jsval \<Rightarrow> jsval \<Rightarrow> jsval" where
  "js_or a b = (if truthy a then a else b)"

text \<open>Reading a property of an object: an absent property reads as \<open>undefined\<close>.\<close>

definition getProp :: "(string \<rightharpoonup> jsval) \<Rightarrow> string \<Rightarrow> jsval" where
  "getProp obj k = (case obj k of None \<Rightarrow> JUndefined | Some v \<Rightarrow> v)"

text \<open>
  Exceptions. \<open>Error\<close> is \<open>new Error(msg)\<close>; \<open>TypeError\<close> and \<open>SyntaxError\<close>
  are raised by the runtime (reading a member of \<open>undefined\<close>, calling a method a value
  does not have, decoding a body that is not JSON), with the engine's message;
  \<open>McpError\<close> is the protocol error of the MCP SDK.
\<close>

datatype ErrorCode = MethodNotFound | InternalError

datatype js_exn = Error string | TypeError string | SyntaxError string | McpError ErrorCode string

text \<open>
  The language runtime and the Turf library are not part of the repository. What the
  code needs from them is taken as a parameter: \<open>numToString\<close> is the conversion of a
  number inside a template literal, \<open>toLowerCase\<close> is \<open>String.prototype.toLowerCase\<close>
  (the Unicode lower-casing of the engine), \<open>turfDistance\<close> is \<open>distance(from, to,
  {units: 'kilometers'})\<close> on two \<open>[longitude, latitude]\<close> points. Distances are reals,
  so the model covers the runs in which Turf returns a number that is not NaN.
\<close>

record runtime =
  numToString :: "real \<Rightarrow> string"
  toLowerCase :: "string \<Rightarrow> string"
  turfDistance :: "real \<times> real \<Rightarrow> real \<times> real \<Rightarrow> real"

text \<open>String conversion of a value inside a template literal.\<close>

fun toStr :: "runtime \<Rightarrow> jsval \<Rightarrow> string" where
  "toStr rt JUndefined = ''undefined''"
| "toStr rt JNull = ''null''"
| "toStr rt (JBool b) = (if b then ''true'' else ''false'')"
| "toStr rt (JNum r) = numToString rt r"
| "toStr rt (JStr s) = s"

text \<open>
  \<open>v.toLowerCase()\<close> on a value: only a string has the method. On \<open>undefined\<close> and
  \<open>null\<close> the property read itself throws.
\<close>

fun callToLowerCase :: "runtime \<Rightarrow> jsval \<Rightarrow> js_exn + string" where
  "callToLowerCase rt (JStr s) = Inr (toLowerCase rt s)"
| "callToLowerCase rt JUndefined = Inl (TypeError ''Cannot read properties of undefined'')"
| "callToLowerCase rt JNull = Inl (TypeError ''Cannot read properties of null'')"
| "callToLowerCase rt v = Inl (TypeError ''toLowerCase is not a function'')"

text \<open>\<open>s.includes(t)\<close>: \<open>t\<close> occurs in \<open>s\<close> as a contiguous substring.\<close>

fun startsWith :: "string \<Rightarrow> string \<Rightarrow> bool" where
  "startsWith s [] = True"
| "startsWith [] (c # t) = False"
| "startsWith (d # s) (c # t) = (d = c \<and> startsWith s t)"

fun includesStr :: "string \<Rightarrow> string \<Rightarrow> bool" where
  "includesStr [] t = (t = [])"
| "includesStr (d # s) t = (startsWith (d # s) t \<or> includesStr s t)"

section \<open>Arrays\<close>

text \<open>
  \<open>ToIntegerOrInfinity\<close> on a finite number truncates towards zero.
  \<open>xs.slice(0, end)\<close>: a negative end counts from the end of the array.
\<close>

definition ToIntegerOrInfinity :: "real \<Rightarrow> int" where
  "ToIntegerOrInfinity x = (if x < 0 then \<lceil>x\<rceil> else \<lfloor>x\<rfloor>)"

definition slice0 :: "real \<Rightarrow> 'a list \<Rightarrow> 'a list" where
  "slice0 endArg xs =
     (let len = int (length xs);
          relativeEnd = ToIntegerOrInfinity endArg;
          final = (if relativeEnd < 0 then max (len + relativeEnd) 0 else min relativeEnd len)
      in take (nat final) xs)"

text \<open>
  \<open>xs.sort(cmp)\<close> is a stable sort: \<open>a\<close> goes before \<open>b\<close> when \<open>cmp(a, b) < 0\<close>,
  after it when \<open>cmp(a, b) > 0\<close>, and elements that compare equal keep their order.
  It is modelled as insertion from the right, which is stable.
\<close>

fun insertBy :: "('a \<Rightarrow> 'a \<Rightarrow> real) \<Rightarrow> 'a \<Rightarrow> 'a list \<Rightarrow> 'a list" where
  "insertBy cmp x [] = [x]"
| "insertBy cmp x (y # ys) = (if cmp x y \<le> 0 then x # y # ys else y # insertBy cmp x ys)"

definition sortBy :: "('a \<Rightarrow> 'a \<Rightarrow> real) \<Rightarrow> 'a list \<Rightarrow> 'a list" where
  "sortBy cmp xs = foldr (insertBy cmp) xs []"

text \<open>\<open>find\<close> and \<open>filter\<close> with a callback that may throw: the first throw ends the call.\<close>

fun findJs :: "('a \<Rightarrow> js_exn + bool) \<Rightarrow> 'a list \<Rightarrow> js_exn + 'a option" where
  "findJs p [] = Inr None"
| "findJs p (x # xs) =
     (case p x of Inl e \<Rightarrow> Inl e | Inr True \<Rightarrow> Inr (Some x) | Inr False \<Rightarrow> findJs p xs)"

fun filterJs :: "('a \<Rightarrow> js_exn + bool) \<Rightarrow> 'a list \<Rightarrow> js_exn + 'a list" where
  "filterJs p [] = Inr []"
| "filterJs p (x # xs) =
     (case p x of
        Inl e \<Rightarrow> Inl e
      | Inr b \<Rightarrow> (case filterJs p xs of Inl e \<Rightarrow> Inl e | Inr ys \<Rightarrow> Inr (if b then x # ys else ys)))"

fun mapJs :: "('a \<Rightarrow> js_exn + 'b) \<Rightarrow> 'a list \<Rightarrow> js_exn + 'b list" where
  "mapJs f [] = Inr []"
| "mapJs f (x # xs) =
     (case f x of
        Inl e \<Rightarrow> Inl e
      | Inr y \<Rightarrow> (case mapJs f xs of Inl e \<Rightarrow> Inl e | Inr ys \<Rightarrow> Inr (y # ys)))"

section \<open>Data model\<close>

text \<open>
  A hawker centre as \<open>fetchHawkerCentres\<close> builds it. The address comes from a template
  literal and is always a string; the coordinates are the two numbers of a GeoJSON position;
  the other fields hold whatever the feed's property held.
\<close>

record hawker =
  name :: jsval
  address :: string
  postalCode :: jsval
  latitude :: real
  longitude :: real
  description :: jsval
  status :: jsval
  stallCount :: jsval
  photoUrl :: jsval

text \<open>\<open>{...hawker, distance: d}\<close>: every field of the hawker and the distance beside them.\<close>

record hawkerWithDistance = hawker +
  distance :: real

section \<open>Distance and ranking (services/distance.ts)\<close>

definition calculateDistance :: "runtime \<Rightarrow> real \<Rightarrow> real \<Rightarrow> real \<Rightarrow> real \<Rightarrow> real" where
  "calculateDistance rt lat1 lon1 lat2 lon2 =
     (let fromPt = (lon1, lat1); toPt = (lon2, lat2);
          distanceKm = turfDistance rt fromPt toPt
      in distanceKm * 1000)"

definition withDistance :: "runtime \<Rightarrow> real \<Rightarrow> real \<Rightarrow> hawker \<Rightarrow> hawkerWithDistance" where
  "withDistance rt userLat userLon h =
     hawker.extend h
       (hawkerWithDistance.fields
          (calculateDistance rt userLat userLon (hawker.latitude h) (hawker.longitude h)))"

definition sortByDistance :: "runtime \<Rightarrow> real \<Rightarrow> real \<Rightarrow> hawker list \<Rightarrow> hawkerWithDistance list" where
  "sortByDistance rt userLat userLon hawkers =
     sortBy (\<lambda>a b. distance a - distance b) (map (withDistance rt userLat userLon) hawkers)"

section \<open>Nearby search (tools/nearby-hawkers.ts)\<close>

text \<open>
  The candidates of a nearby search, \<open>nearby\<close> in \<open>getNearbyHawkersTool\<close>:
  the ranked collection, filtered by the radius, cut to the limit.
\<close>

definition nearby :: "runtime \<Rightarrow> real \<Rightarrow> real \<Rightarrow> real \<Rightarrow> real \<Rightarrow> hawker list \<Rightarrow> hawkerWithDistance list" where
  "nearby rt lat lon radius limit allHawkers =
     slice0 limit (filter (\<lambda>h. distance h \<le> radius) (sortByDistance rt lat lon allHawkers))"

section \<open>Open-data gateway (services/data-gov-sg.js)\<close>

text \<open>
  A closure record as \<open>fetchHawkerClosures\<close> builds it.
\<close>

record closure =
  name :: jsval
  quarter :: jsval
  closureDates :: jsval
  reason :: jsval

text \<open>
  A feature of the GeoJSON feed: its \<open>properties\<close> object, and the position
  \<open>[longitude, latitude]\<close> of its geometry. \<open>None\<close> stands for a member that is
  missing or null, whose own members cannot be read.
\<close>

record feature =
  properties :: "(string \<rightharpoonup> jsval) option"
  coordinates :: "(real \<times> real) option"

record geojson =
  features :: "feature list option"

text \<open>
  What \<open>fetch\<close> gives: it rejects (a transport error), or it resolves with a response
  that has a status and a body; \<open>json\<close> is the decoded body, \<open>None\<close> when
  \<open>response.json()\<close> rejects.
\<close>

record 'a response =
  ok :: bool
  statusText :: string
  json :: "'a option"

datatype 'a fetched = FetchRejected js_exn | FetchResolved "'a response"

text \<open>
  The world outside one call: the answers of the three endpoints and the clock. The body of
  the poll endpoint is reduced to \<open>pollData.data.url\<close> (\<open>None\<close> when it cannot be
  read); \<open>now\<close> is \<open>Date.now()\<close> at the freshness test, \<open>fetchedAt\<close> is
  \<open>Date.now()\<close> when a new cache is stamped.
\<close>

record world =
  pollDownload :: "(string option) fetched"
  download :: "string \<Rightarrow> geojson fetched"
  datastoreSearch :: "((string \<rightharpoonup> jsval) list option) fetched"
  now :: int
  fetchedAt :: int

text \<open>
  The module's variables: two cache slots and their time stamps. A slot is \<open>None\<close>
  while the variable is \<open>null\<close>; a cached array, also an empty one, is truthy.
\<close>

record gateway =
  cachedHawkers :: "hawker list option"
  cacheTimestamp :: int
  cachedClosures :: "closure list option"
  closureCacheTimestamp :: int

definition initialGateway :: gateway where
  "initialGateway =
     \<lparr>cachedHawkers = None, cacheTimestamp = 0, cachedClosures = None, closureCacheTimestamp = 0\<rparr>"

definition CACHE_DURATION :: int where
  "CACHE_DURATION = 24 * 60 * 60 * 1000"

definition CLOSURE_CACHE_DURATION :: int where
  "CLOSURE_CACHE_DURATION = 60 * 60 * 1000"

text \<open>Step 3 of \<open>fetchHawkerCentres\<close>: the callback of \<open>geojson.features.map\<close>.\<close>

definition parseFeature :: "runtime \<Rightarrow> feature \<Rightarrow> js_exn + hawker" where
  "parseFeature rt f =
     (case properties f of
        None \<Rightarrow> Inl (TypeError ''Cannot read properties of undefined'')
      | Some props \<Rightarrow>
          (case coordinates f of
             None \<Rightarrow> Inl (TypeError ''Cannot read properties of undefined'')
           | Some (lng, lat) \<Rightarrow>
               Inr \<lparr>hawker.name = getProp props ''NAME'',
                    address = toStr rt (getProp props ''ADDRESSBLOCKHOUSENUMBER'') @ '' '' @
                              toStr rt (getProp props ''ADDRESSSTREETNAME''),
                    postalCode = js_or (getProp props ''ADDRESSPOSTALCODE'') (JStr ''''),
                    latitude = lat,
                    longitude = lng,
                    description = js_or (getProp props ''DESCRIPTION'') (JStr ''''),
                    status = js_or (getProp props ''STATUS'') (JStr ''Unknown''),
                    stallCount = js_or (getProp props ''NUMBER_OF_COOKED_FOOD_STALLS'') (JNum 0),
                    photoUrl = js_or (getProp props ''PHOTOURL'') (JStr '''')\<rparr>))"

text \<open>The body of the \<open>try\<close> block of \<open>fetchHawkerCentres\<close>, up to the parsed collection.\<close>

definition tryFetchHawkers :: "runtime \<Rightarrow> world \<Rightarrow> js_exn + hawker list" where
  "tryFetchHawkers rt w =
     (case pollDownload w of
        FetchRejected e \<Rightarrow> Inl e
      | FetchResolved pollResponse \<Rightarrow>
          if \<not> ok pollResponse
          then Inl (Error (''Failed to fetch hawker data: '' @ statusText pollResponse))
          else
            (case json pollResponse of
               None \<Rightarrow> Inl (SyntaxError ''Unexpected token in JSON'')
             | Some None \<Rightarrow> Inl (TypeError ''Cannot read properties of undefined'')
             | Some (Some downloadUrl) \<Rightarrow>
                 (case download w downloadUrl of
                    FetchRejected e \<Rightarrow> Inl e
                  | FetchResolved dataResponse \<Rightarrow>
                      if \<not> ok dataResponse
                      then Inl (Error (''Failed to download hawker data: '' @ statusText dataResponse))
                      else
                        (case json dataResponse of
                           None \<Rightarrow> Inl (SyntaxError ''Unexpected token in JSON'')
                         | Some g \<Rightarrow>
                             (case features g of
                                None \<Rightarrow> Inl (TypeError ''Cannot read properties of undefined'')
                              | Some fs \<Rightarrow> mapJs (parseFeature rt) fs)))))"

definition fetchHawkerCentres :: "runtime \<Rightarrow> world \<Rightarrow> gateway \<Rightarrow> hawker list \<times> gateway" where
  "fetchHawkerCentres rt w g =
     (case (if now w - cacheTimestamp g < CACHE_DURATION then cachedHawkers g else None) of
        Some cached \<Rightarrow> (cached, g)
      | None \<Rightarrow>
          (case tryFetchHawkers rt w of
             Inr hawkers \<Rightarrow>
               (hawkers, g\<lparr>cachedHawkers := Some hawkers, cacheTimestamp := fetchedAt w\<rparr>)
           | Inl e \<Rightarrow>
               (case cachedHawkers g of
                  Some cached \<Rightarrow> if length cached > 0 then (cached, g) else ([], g)
                | None \<Rightarrow> ([], g))))"

definition parseRecord :: "(string \<rightharpoonup> jsval) \<Rightarrow> closure" where
  "parseRecord r =
     \<lparr>closure.name = js_or (getProp r ''name'') (JStr ''''),
      quarter = js_or (getProp r ''quarter'') (JStr ''''),
      closureDates = js_or (getProp r ''closure_dates'') (JStr ''''),
      reason = js_or (getProp r ''reason'') (JStr ''Scheduled closure'')\<rparr>"

definition tryFetchClosures :: "world \<Rightarrow> js_exn + closure list" where
  "tryFetchClosures w =
     (case datastoreSearch w of
        FetchRejected e \<Rightarrow> Inl e
      | FetchResolved resp \<Rightarrow>
          if \<not> ok resp
          then Inl (Error (''Failed to fetch closures: '' @ statusText resp))
          else
            (case json resp of
               None \<Rightarrow> Inl (SyntaxError ''Unexpected token in JSON'')
             | Some None \<Rightarrow> Inl (TypeError ''Cannot read properties of undefined'')
             | Some (Some records) \<Rightarrow> Inr (map parseRecord records)))"

definition fetchHawkerClosures :: "world \<Rightarrow> gateway \<Rightarrow> closure list \<times> gateway" where
  "fetchHawkerClosures w g =
     (case (if now w - closureCacheTimestamp g < CLOSURE_CACHE_DURATION then cachedClosures g else None) of
        Some cached \<Rightarrow> (cached, g)
      | None \<Rightarrow>
          (case tryFetchClosures w of
             Inr closures \<Rightarrow>
               (closures, g\<lparr>cachedClosures := Some closures, closureCacheTimestamp := fetchedAt w\<rparr>)
           | Inl e \<Rightarrow> ([], g)))"

section \<open>Tools (tools/nearby-hawkers.ts, tools/details.ts, tools/closures.ts)\<close>

text \<open>
  The result of a tool: a list of content blocks, each with its \<open>type\<close> and its
  \<open>text\<close>. The arguments object is modelled at the
  types the tools' input schemas declare: two numbers, two optional numbers with defaults,
  and a string; a tool reads the properties it names and ignores the others.
\<close>

record contentBlock =
  blockType :: string
  blockText :: string

record toolResult =
  content :: "contentBlock list"

record toolArgs =
  latitude :: real
  longitude :: real
  radius :: "real option"
  limit :: "real option"
  hawkerName :: string

definition textResult :: "string \<Rightarrow> toolResult" where
  "textResult s = \<lparr>content = [\<lparr>blockType = ''text'', blockText = s\<rparr>]\<rparr>"

definition nl :: string where
  "nl = [CHR 0x0A]"

fun joinStr :: "string \<Rightarrow> string list \<Rightarrow> string" where
  "joinStr sep [] = []"
| "joinStr sep [x] = x"
| "joinStr sep (x # y # ys) = x @ sep @ joinStr sep (y # ys)"

text \<open>\<open>Math.round\<close>: the nearest integer, a half rounded up.\<close>

definition mathRound :: "real \<Rightarrow> int" where
  "mathRound x = \<lfloor>x + 1 / 2\<rfloor>"

definition nearbyEntry :: "runtime \<Rightarrow> nat \<times> hawkerWithDistance \<Rightarrow> string" where
  "nearbyEntry rt ih =
     (case ih of (i, h) \<Rightarrow>
        numToString rt (real (i + 1)) @ ''. '' @ toStr rt (hawker.name h) @ nl @
        ''   Address: '' @ address h @ nl @
        ''   Distance: '' @ numToString rt (of_int (mathRound (distance h))) @ ''m away'' @ nl @
        ''   Stalls: '' @ toStr rt (stallCount h) @ '' cooked food stalls'' @ nl @
        ''   Status: '' @ toStr rt (status h) @ nl)"

definition getNearbyHawkersTool ::
  "runtime \<Rightarrow> world \<Rightarrow> gateway \<Rightarrow> toolArgs \<Rightarrow> (js_exn + toolResult) \<times> gateway" where
  "getNearbyHawkersTool rt w g args =
     (let lat = toolArgs.latitude args;
          lon = toolArgs.longitude args;
          rd = (case radius args of None \<Rightarrow> 2000 | Some r \<Rightarrow> r);
          lm = (case limit args of None \<Rightarrow> 10 | Some l \<Rightarrow> l);
          (allHawkers, g') = fetchHawkerCentres rt w g;
          found = nearby rt lat lon rd lm allHawkers;
          responseText =
            (if length found > 0
             then ''Found '' @ numToString rt (real (length found)) @ '' Hawker centres within '' @
                  numToString rt rd @ ''m:'' @ nl @ nl @
                  joinStr nl (map (nearbyEntry rt) (enumerate 0 found))
             else ''No Hawker centres found within '' @ numToString rt rd @ ''m of your location.'')
      in (Inr (textResult responseText), g'))"

text \<open>
  The selection of \<open>getHawkerDetailsTool\<close>: \<open>find\<close> with the exact test, and, when it
  finds nothing, \<open>find\<close> with the substring test. A name that is not a string has no
  \<open>toLowerCase\<close>, and the test on it throws.
\<close>

definition nameEquals :: "runtime \<Rightarrow> string \<Rightarrow> hawker \<Rightarrow> js_exn + bool" where
  "nameEquals rt subject h =
     (case callToLowerCase rt (hawker.name h) of
        Inl e \<Rightarrow> Inl e
      | Inr s \<Rightarrow> Inr (s = toLowerCase rt subject))"

definition nameIncludes :: "runtime \<Rightarrow> string \<Rightarrow> jsval \<Rightarrow> js_exn + bool" where
  "nameIncludes rt subject v =
     (case callToLowerCase rt v of
        Inl e \<Rightarrow> Inl e
      | Inr s \<Rightarrow> Inr (includesStr s (toLowerCase rt subject)))"

definition findHawker :: "runtime \<Rightarrow> hawker list \<Rightarrow> string \<Rightarrow> js_exn + hawker option" where
  "findHawker rt allHawkers subject =
     (case findJs (nameEquals rt subject) allHawkers of
        Inl e \<Rightarrow> Inl e
      | Inr (Some h) \<Rightarrow> Inr (Some h)
      | Inr None \<Rightarrow> findJs (\<lambda>h. nameIncludes rt subject (hawker.name h)) allHawkers)"

definition notFoundText :: "string \<Rightarrow> string" where
  "notFoundText subject =
     ''Could not find details for \"'' @ subject @ ''\". Please check the name and try again.''"

definition detailsText :: "runtime \<Rightarrow> hawker \<Rightarrow> string" where
  "detailsText rt h =
     ''Details for '' @ toStr rt (hawker.name h) @ '':'' @ nl @ nl @
     ''Address: '' @ address h @ '', Singapore '' @ toStr rt (postalCode h) @ nl @
     ''Status: '' @ toStr rt (status h) @ nl @
     ''Number of Stalls: '' @ toStr rt (stallCount h) @ '' cooked food stalls'' @ nl @
     ''Coordinates: '' @ numToString rt (hawker.latitude h) @ '', '' @
       numToString rt (hawker.longitude h) @ nl @
     (if truthy (description h)
      then nl @ ''Description: '' @ toStr rt (description h) @ nl else '''') @
     (if truthy (photoUrl h)
      then nl @ ''!['' @ toStr rt (hawker.name h) @ ''](''  @ toStr rt (photoUrl h) @ '')'' else '''')"

definition hawkerDetails :: "runtime \<Rightarrow> hawker list \<Rightarrow> string \<Rightarrow> js_exn + toolResult" where
  "hawkerDetails rt allHawkers subject =
     (case findHawker rt allHawkers subject of
        Inl e \<Rightarrow> Inl e
      | Inr None \<Rightarrow> Inr (textResult (notFoundText subject))
      | Inr (Some h) \<Rightarrow> Inr (textResult (detailsText rt h)))"

definition getHawkerDetailsTool ::
  "runtime \<Rightarrow> world \<Rightarrow> gateway \<Rightarrow> toolArgs \<Rightarrow> (js_exn + toolResult) \<times> gateway" where
  "getHawkerDetailsTool rt w g args =
     (let (allHawkers, g') = fetchHawkerCentres rt w g
      in (hawkerDetails rt allHawkers (hawkerName args), g'))"

text \<open>\<open>getClosuresTool\<close>: the records whose name contains the subject, both in lower case.\<close>

definition matchingClosures :: "runtime \<Rightarrow> closure list \<Rightarrow> string \<Rightarrow> js_exn + closure list" where
  "matchingClosures rt allClosures subject =
     filterJs (\<lambda>c. nameIncludes rt subject (closure.name c)) allClosures"

definition noClosuresText :: "string \<Rightarrow> string" where
  "noClosuresText subject =
     ''No scheduled closures found for \"'' @ subject @
     ''\". It should be open as per the latest data.''"

text \<open>
  The entry of one closure. It starts with the three characters the source file holds in
  front of the quarter (U+00E2, U+20AC, U+00A2), here as their UTF-8 bytes.
\<close>

definition closureEntry :: "runtime \<Rightarrow> closure \<Rightarrow> string" where
  "closureEntry rt c =
     [CHR 0xC3, CHR 0xA2, CHR 0xE2, CHR 0x82, CHR 0xAC, CHR 0xC2, CHR 0xA2] @ '' '' @
     toStr rt (quarter c) @ '': '' @
     toStr rt (closureDates c) @ nl @ ''  Reason: '' @ toStr rt (reason c)"

definition closuresInfo :: "runtime \<Rightarrow> closure list \<Rightarrow> string \<Rightarrow> js_exn + toolResult" where
  "closuresInfo rt allClosures subject =
     (case matchingClosures rt allClosures subject of
        Inl e \<Rightarrow> Inl e
      | Inr closures \<Rightarrow>
          if length closures = 0
          then Inr (textResult (noClosuresText subject))
          else Inr (textResult
                 (''Closure information for \"'' @ subject @ ''\":'' @ nl @ nl @
                  joinStr (nl @ nl) (map (closureEntry rt) closures))))"

definition getClosuresTool ::
  "runtime \<Rightarrow> world \<Rightarrow> gateway \<Rightarrow> toolArgs \<Rightarrow> (js_exn + toolResult) \<times> gateway" where
  "getClosuresTool rt w g args =
     (let (allClosures, g') = fetchHawkerClosures w g
      in (closuresInfo rt allClosures (hawkerName args), g'))"

section \<open>Dispatcher (index.ts)\<close>

text \<open>
  The handler of \<open>tools/call\<close>. What it throws is an \<open>McpError\<close>, which the SDK turns
  into the error member of the response; what it returns is the result member.
\<close>

fun message :: "js_exn \<Rightarrow> string" where
  "message (Error m) = m"
| "message (TypeError m) = m"
| "message (SyntaxError m) = m"
| "message (McpError c m) = m"

fun isMcpError :: "js_exn \<Rightarrow> bool" where
  "isMcpError (McpError c m) = True"
| "isMcpError e = False"

definition callTool ::
  "runtime \<Rightarrow> world \<Rightarrow> gateway \<Rightarrow> string \<Rightarrow> toolArgs \<Rightarrow> (js_exn + toolResult) \<times> gateway" where
  "callTool rt w g toolName args =
     (let (r, g') =
            (if toolName = ''get_nearby_hawkers'' then getNearbyHawkersTool rt w g args
             else if toolName = ''check_hawker_closures'' then getClosuresTool rt w g args
             else if toolName = ''get_hawker_details'' then getHawkerDetailsTool rt w g args
             else (Inl (McpError MethodNotFound (''Unknown tool: '' @ toolName)), g))
      in (case r of
            Inr res \<Rightarrow> (Inr res, g')
          | Inl e \<Rightarrow>
              if isMcpError e then (Inl e, g')
              else (Inl (McpError InternalError (''Tool execution failed: '' @ message e)), g')))"

section \<open>Transport bridge (MCPClient)\<close>

text \<open>
  The client runs on one event loop: each method and each callback runs to its end before
  the next one starts. The model is a state and one function per method or callback; the
  stdout listener, the write callback, the timer and the exit listener are events that the
  environment fires. The 30 seconds of the timer are not modelled: the event
  \<open>requestTimeout\<close> is the timer's callback, whenever it runs.

  A promise is pending until its \<open>resolve\<close> or \<open>reject\<close> is called for the first
  time; later calls change nothing. The promise of a request is named by the request's id.
  \<open>pendingRequests\<close> is a JavaScript \<open>Map\<close>, which keeps its keys in insertion order:
  an association list, whose values name the promise the stored callbacks settle.
\<close>

datatype 'r promiseState = Pending | Fulfilled 'r | Rejected string

record child =
  stdin :: bool
  stdout :: bool

record 'r rpcMessage =
  msgId :: "nat option"
  msgError :: "string option option"
  msgResult :: 'r

record 'r client =
  process :: "child option"
  messageId :: nat
  pendingRequests :: "(nat \<times> nat) list"
  promises :: "nat \<rightharpoonup> 'r promiseState"

definition newClient :: "'r client" where
  "newClient = \<lparr>process = None, messageId = 0, pendingRequests = [], promises = Map.empty\<rparr>"

definition resolvePromise :: "nat \<Rightarrow> 'r \<Rightarrow> 'r client \<Rightarrow> 'r client" where
  "resolvePromise p v c =
     (if promises c p = Some Pending then c\<lparr>promises := (promises c)(p \<mapsto> Fulfilled v)\<rparr> else c)"

definition rejectPromise :: "nat \<Rightarrow> string \<Rightarrow> 'r client \<Rightarrow> 'r client" where
  "rejectPromise p err c =
     (if promises c p = Some Pending then c\<lparr>promises := (promises c)(p \<mapsto> Rejected err)\<rparr> else c)"

text \<open>The exit listener that \<open>start\<close> installs.\<close>

definition onExit :: "'r client \<Rightarrow> 'r client" where
  "onExit c =
     (let c1 = c\<lparr>process := None\<rparr>;
          c2 = fold (\<lambda>(i, p). rejectPromise p ''MCP server exited'') (pendingRequests c1) c1
      in c2\<lparr>pendingRequests := []\<rparr>)"

text \<open>
  \<open>start\<close>, with the child that \<open>spawn\<close> returns. The handle is stored before the
  streams are tested.
\<close>

definition start :: "child \<Rightarrow> 'r client \<Rightarrow> (js_exn + unit) \<times> 'r client" where
  "start spawned c =
     (if process c \<noteq> None then (Inr (), c)
      else
        (let c' = c\<lparr>process := Some spawned\<rparr>
         in if \<not> stdout spawned \<or> \<not> stdin spawned
            then (Inl (Error ''Failed to create stdio streams''), c')
            else (Inr (), c')))"

definition handleMessage :: "'r rpcMessage \<Rightarrow> 'r client \<Rightarrow> 'r client" where
  "handleMessage m c =
     (case msgId m of
        None \<Rightarrow> c
      | Some i \<Rightarrow>
          (case map_of (pendingRequests c) i of
             None \<Rightarrow> c
           | Some p \<Rightarrow>
               (let c' = c\<lparr>pendingRequests := AList.delete i (pendingRequests c)\<rparr>
                in case msgError m of
                     Some err \<Rightarrow>
                       rejectPromise p
                         (case err of None \<Rightarrow> ''MCP error''
                                    | Some s \<Rightarrow> if s \<noteq> [] then s else ''MCP error'') c'
                   | None \<Rightarrow> resolvePromise p (msgResult m) c')))"

text \<open>
  \<open>sendRequest\<close> up to the return of its promise: the new id, or the error thrown when
  there is no process with a stdin.
\<close>

definition sendRequest :: "'r client \<Rightarrow> (js_exn + nat) \<times> 'r client" where
  "sendRequest c =
     (if (case process c of None \<Rightarrow> True | Some ch \<Rightarrow> \<not> stdin ch)
      then (Inl (Error ''MCP server not started''), c)
      else
        (let i = messageId c + 1
         in (Inr i,
             c\<lparr>messageId := i,
               promises := (promises c)(i \<mapsto> Pending),
               pendingRequests := AList.update i i (pendingRequests c)\<rparr>)))"

text \<open>The callback of \<open>stdin.write\<close> when the write failed.\<close>

definition writeFailed :: "nat \<Rightarrow> string \<Rightarrow> 'r client \<Rightarrow> 'r client" where
  "writeFailed i err c =
     rejectPromise i err (c\<lparr>pendingRequests := AList.delete i (pendingRequests c)\<rparr>)"

text \<open>The callback of the timer that \<open>sendRequest\<close> sets for request \<open>i\<close>.\<close>

definition requestTimeout :: "nat \<Rightarrow> 'r client \<Rightarrow> 'r client" where
  "requestTimeout i c =
     (if map_of (pendingRequests c) i \<noteq> None
      then rejectPromise i ''MCP request timeout''
             (c\<lparr>pendingRequests := AList.delete i (pendingRequests c)\<rparr>)
      else c)"

definition stop :: "'r client \<Rightarrow> 'r client" where
  "stop c = (if process c \<noteq> None then c\<lparr>process := None\<rparr> else c)"

text \<open>What can happen to a client, and a run of such events from a state.\<close>

datatype 'r event =
    Start child
  | Send
  | Message "'r rpcMessage"
  | WriteFailed nat string
  | TimerFired nat
  | Exited
  | Stop

fun step :: "'r event \<Rightarrow> 'r client \<Rightarrow> 'r client" where
  "step (Start ch) c = snd (start ch c)"
| "step Send c = snd (sendRequest c)"
| "step (Message m) c = handleMessage m c"
| "step (WriteFailed i err) c = writeFailed i err c"
| "step (TimerFired i) c = requestTimeout i c"
| "step Exited c = onExit c"
| "step Stop c = stop c"

definition run :: "'r event list \<Rightarrow> 'r client \<Rightarrow> 'r client" where
  "run es c = fold step es c"

section \<open>The matching of names, as the specification words it\<close>

text \<open>
  The data model gives a point of interest and a closure record a name that is a string.
  \<open>isString\<close> says so of a value; \<open>equalsIgnoreCase\<close> and \<open>containsIgnoreCase\<close>
  are "equals the subject case-insensitively" and "contains the subject as a
  case-insensitive substring": two strings are compared after the lower-casing of the
  runtime, with \<open>sublist\<close> of the library for the substring.
  \<open>selectHawker\<close> is the selection the specification describes: the first exact match,
  else the first substring match.
\<close>

fun isString :: "jsval \<Rightarrow> bool" where
  "isString (JStr s) = True"
| "isString v = False"

definition equalsIgnoreCase :: "runtime \<Rightarrow> string \<Rightarrow> jsval \<Rightarrow> bool" where
  "equalsIgnoreCase rt subject v =
     (case v of JStr s \<Rightarrow> toLowerCase rt s = toLowerCase rt subject | _ \<Rightarrow> False)"

definition containsIgnoreCase :: "runtime \<Rightarrow> string \<Rightarrow> jsval \<Rightarrow> bool" where
  "containsIgnoreCase rt subject v =
     (case v of
        JStr s \<Rightarrow> sublist (toLowerCase rt subject) (toLowerCase rt s)
      | _ \<Rightarrow> False)"

definition selectHawker :: "runtime \<Rightarrow> hawker list \<Rightarrow> string \<Rightarrow> hawker option" where
  "selectHawker rt hs subject =
     (case find (\<lambda>h. equalsIgnoreCase rt subject (hawker.name h)) hs of
        Some h \<Rightarrow> Some h
      | None \<Rightarrow> find (\<lambda>h. containsIgnoreCase rt subject (hawker.name h)) hs)"

text \<open>
  A failure of the point-of-interest fetch in the specification's words: a transport error
  or a non-success status, at the poll step or at the download step.
\<close>

definition upstreamFailure :: "world \<Rightarrow> bool" where
  "upstreamFailure w =
     (case pollDownload w of
        FetchRejected e \<Rightarrow> True
      | FetchResolved pollResponse \<Rightarrow>
          \<not> ok pollResponse \<or>
          (case json pollResponse of
             Some (Some downloadUrl) \<Rightarrow>
               (case download w downloadUrl of
                  FetchRejected e \<Rightarrow> True
                | FetchResolved dataResponse \<Rightarrow> \<not> ok dataResponse)
           | _ \<Rightarrow> False))"

section \<open>An invariant of the bridge\<close>

text \<open>
  What every state that the client reaches satisfies: an entry of \<open>pendingRequests\<close>
  is stored under the id of its own promise, that promise is still pending, and no promise
  or entry has an id beyond \<open>messageId\<close>.
\<close>

definition consistent :: "'r client \<Rightarrow> bool" where
  "consistent c =
     (list_all (\<lambda>(i, p). p = i \<and> promises c i = Some Pending \<and> i \<le> messageId c)
        (pendingRequests c) \<and>
      (\<forall>i. promises c i \<noteq> None \<longrightarrow> i \<le> messageId c))"

text \<open>
  Request \<open>i\<close> has been issued and has no entry any more: it was answered, it failed,
  or it timed out.
\<close>

definition settled :: "nat \<Rightarrow> 'r client \<Rightarrow> bool" where
  "settled i c = (i \<le> messageId c \<and> map_of (pendingRequests c) i = None)"

text \<open>A child with both streams, and a response that carries the id 1.\<close>

definition piped :: child where
  "piped = \<lparr>stdin = True, stdout = True\<rparr>"

definition answer1 :: "string rpcMessage" where
  "answer1 = \<lparr>msgId = Some 1, msgError = None, msgResult = ''late''\<rparr>"

section \<open>Great-circle distance, from the specification\<close>

text \<open>
  Modelled from the spec: the Turf library, whose \<open>distance\<close> the repository calls, is not
  in the repository. The specification (4.1) says the distance is a great-circle,
  haversine-equivalent formula on a spherical Earth, from decimal degrees. Degrees are
  turned into radians first.
\<close>

definition degreesToRadians :: "real \<Rightarrow> real" where
  "degreesToRadians d = d * pi / 180"

text \<open>
  Modelled from the spec: the radius of the spherical Earth of 4.1, in kilometres (the mean
  radius of the Earth); the library's constant is not in the repository.
\<close>

definition earthRadiusKm :: real where
  "earthRadiusKm = 6371"

text \<open>
  Modelled from the spec: the haversine of the central angle between two
  \<open>[longitude, latitude]\<close> points, the inner term of the haversine formula of 4.1.
\<close>

definition haversine :: "real \<times> real \<Rightarrow> real \<times> real \<Rightarrow> real" where
  "haversine p q =
     (case p of (lon1, lat1) \<Rightarrow> case q of (lon2, lat2) \<Rightarrow>
        (sin (degreesToRadians (lat2 - lat1) / 2))\<^sup>2 +
        (sin (degreesToRadians (lon2 - lon1) / 2))\<^sup>2 *
          cos (degreesToRadians lat1) * cos (degreesToRadians lat2))"

text \<open>
  Modelled from the spec: the great-circle distance of 4.1 in kilometres, by the haversine
  formula: twice the radius times the arc sine of the root of the haversine. This is what
  the specification says Turf's \<open>distance\<close> computes; it is over the reals, without the
  rounding of floating-point arithmetic.
\<close>

definition greatCircleKm :: "real \<times> real \<Rightarrow> real \<times> real \<Rightarrow> real" where
  "greatCircleKm p q = 2 * earthRadiusKm * arcsin (sqrt (haversine p q))"

section \<open>Example data\<close>

text \<open>
  A runtime and a small collection to evaluate the definitions on. The distance of the
  example runtime is the sum of the coordinate differences, the number printer is a stub,
  and the lower-casing is that of ASCII letters, which is what \<open>toLowerCase\<close> does on
  the ASCII names of the examples.
\<close>

definition lowerChar :: "char \<Rightarrow> char" where
  "lowerChar c =
     (case map_of (zip ''ABCDEFGHIJKLMNOPQRSTUVWXYZ'' ''abcdefghijklmnopqrstuvwxyz'') c of
        None \<Rightarrow> c
      | Some d \<Rightarrow> d)"

definition asciiLowerCase :: "string \<Rightarrow> string" where
  "asciiLowerCase s = map lowerChar s"

definition demoRuntime :: runtime where
  "demoRuntime =
     \<lparr>numToString = (\<lambda>r. ''#''),
      toLowerCase = asciiLowerCase,
      turfDistance = (\<lambda>p q. \<bar>fst p - fst q\<bar> + \<bar>snd p - snd q\<bar>)\<rparr>"

definition placeA :: hawker where
  "placeA =
     \<lparr>hawker.name = JStr ''Place A'', address = ''1 First Road'', postalCode = JStr ''100001'',
      latitude = 1, longitude = 1, description = JStr '''', status = JStr ''Operational'',
      stallCount = JNum 40, photoUrl = JStr ''''\<rparr>"

definition placeB :: hawker where
  "placeB =
     \<lparr>hawker.name = JStr ''Place B'', address = ''2 Second Road'', postalCode = JStr ''100002'',
      latitude = 0, longitude = 1, description = JStr ''Old market'', status = JStr ''Operational'',
      stallCount = JNum 12, photoUrl = JStr ''''\<rparr>"

definition placeC :: hawker where
  "placeC =
     \<lparr>hawker.name = JStr ''Other Place B'', address = ''3 Third Road'', postalCode = JStr '''',
      latitude = 3, longitude = 4, description = JStr '''', status = JStr ''Unknown'',
      stallCount = JNum 0, photoUrl = JStr ''''\<rparr>"

definition noProperties :: feature where
  "noProperties = \<lparr>properties = Some Map.empty, coordinates = Some (103, 1)\<rparr>"

text \<open>A world in which every endpoint is unreachable, and one whose poll endpoint answers 503.\<close>

definition offline :: world where
  "offline =
     \<lparr>pollDownload = FetchRejected (TypeError ''fetch failed''),
      download = (\<lambda>url. FetchRejected (TypeError ''fetch failed'')),
      datastoreSearch = FetchRejected (TypeError ''fetch failed''),
      now = 100000000,
      fetchedAt = 100000001\<rparr>"

definition unavailable :: world where
  "unavailable =
     offline\<lparr>pollDownload :=
       FetchResolved \<lparr>ok = False, statusText = ''Service Unavailable'', json = None\<rparr>\<rparr>"

text \<open>A world in which both steps of the point-of-interest fetch succeed, with one feature.\<close>

definition featureA :: feature where
  "featureA =
     \<lparr>properties =
        Some [''NAME'' \<mapsto> JStr ''Place A'', ''ADDRESSBLOCKHOUSENUMBER'' \<mapsto> JStr ''1'',
              ''ADDRESSSTREETNAME'' \<mapsto> JStr ''First Road'',
              ''ADDRESSPOSTALCODE'' \<mapsto> JStr ''100001'', ''STATUS'' \<mapsto> JStr ''Operational'',
              ''NUMBER_OF_COOKED_FOOD_STALLS'' \<mapsto> JNum 40],
      coordinates = Some (1, 1)\<rparr>"

definition online :: world where
  "online =
     \<lparr>pollDownload =
        FetchResolved \<lparr>ok = True, statusText = ''OK'', json = Some (Some ''https://feed/hawkers'')\<rparr>,
      download =
        (\<lambda>url. FetchResolved
                 \<lparr>ok = True, statusText = ''OK'', json = Some \<lparr>features = Some [featureA]\<rparr>\<rparr>),
      datastoreSearch = FetchRejected (TypeError ''fetch failed''),
      now = 1000,
      fetchedAt = 1001\<rparr>"

text \<open>A gateway whose point-of-interest cache was filled at time 0 and has expired since.\<close>

definition staleGateway :: gateway where
  "staleGateway =
     \<lparr>cachedHawkers = Some [placeA, placeC, placeB], cacheTimestamp = 0,
      cachedClosures = None, closureCacheTimestamp = 0\<rparr>"

definition demoArgs :: toolArgs where
  "demoArgs =
     \<lparr>latitude = 0, longitude = 0, radius = None, limit = None, hawkerName = ''place b''\<rparr>"

text \<open>A world whose closure feed has one record, and the closure record parsed from it.\<close>

definition recordB :: "string \<rightharpoonup> jsval" where
  "recordB =
     [''name'' \<mapsto> JStr ''Place B'', ''quarter'' \<mapsto> JStr ''Q1'',
      ''closure_dates'' \<mapsto> JStr ''1 to 4 Jan'', ''reason'' \<mapsto> JStr ''Cleaning'']"

definition closureFeed :: world where
  "closureFeed =
     offline\<lparr>datastoreSearch :=
       FetchResolved \<lparr>ok = True, statusText = ''OK'', json = Some (Some [recordB])\<rparr>\<rparr>"

definition closureB :: closure where
  "closureB =
     \<lparr>closure.name = JStr ''Place B'', quarter = JStr ''Q1'', closureDates = JStr ''1 to 4 Jan'',
      reason = JStr ''Cleaning''\<rparr>"

text \<open>
  A point-of-interest feed whose second feature has no \<open>NAME\<close>, and the entry the gateway
  parses from that feature.
\<close>

definition namelessPlace :: hawker where
  "namelessPlace =
     \<lparr>hawker.name = JUndefined, address = ''undefined undefined'', postalCode = JStr '''',
      latitude = 1, longitude = 103, description = JStr '''', status = JStr ''Unknown'',
      stallCount = JNum 0, photoUrl = JStr ''''\<rparr>"

definition namelessFeed :: world where
  "namelessFeed =
     online\<lparr>download :=
       (\<lambda>url. FetchResolved
                \<lparr>ok = True, statusText = ''OK'',
                 json = Some \<lparr>features = Some [featureA, noProperties]\<rparr>\<rparr>)\<rparr>"

text \<open>A closure feed whose only record has a number for its name.\<close>

definition recordFive :: "string \<rightharpoonup> jsval" where
  "recordFive =
     [''name'' \<mapsto> JNum 5, ''quarter'' \<mapsto> JStr ''Q2'',
      ''closure_dates'' \<mapsto> JStr ''5 to 8 Apr'', ''reason'' \<mapsto> JStr ''Repairs'']"

definition numericNameFeed :: world where
  "numericNameFeed =
     offline\<lparr>datastoreSearch :=
       FetchResolved \<lparr>ok = True, statusText = ''OK'', json = Some (Some [recordFive])\<rparr>\<rparr>"

section \<open>Properties of the ranking\<close>

lemma insertBy_insort_key: "insertBy (\<lambda>a b. f a - f b) x xs = insort_key f x xs"
  by (induction xs) auto

lemma sortBy_sort_key: "sortBy (\<lambda>a b. f a - f b) xs = sort_key f xs"
  by (induction xs) (auto simp: sortBy_def insertBy_insort_key)

lemma sortByDistance_sort_key:
  "sortByDistance rt a b hs = sort_key distance (map (withDistance rt a b) hs)"
  by (simp add: sortByDistance_def sortBy_sort_key)

lemma truncate_withDistance: "hawker.truncate (withDistance rt a b h) = h"
  by (simp add: withDistance_def hawker.defs hawkerWithDistance.defs)

lemma distance_withDistance:
  "distance (withDistance rt a b h) =
     calculateDistance rt a b (hawker.latitude h) (hawker.longitude h)"
  by (simp add: withDistance_def hawker.defs hawkerWithDistance.defs)

lemma fields_withDistance:
  "hawker.name (withDistance rt a b h) = hawker.name h"
  "address (withDistance rt a b h) = address h"
  "postalCode (withDistance rt a b h) = postalCode h"
  "hawker.latitude (withDistance rt a b h) = hawker.latitude h"
  "hawker.longitude (withDistance rt a b h) = hawker.longitude h"
  "description (withDistance rt a b h) = description h"
  "status (withDistance rt a b h) = status h"
  "stallCount (withDistance rt a b h) = stallCount h"
  "photoUrl (withDistance rt a b h) = photoUrl h"
  by (simp_all add: withDistance_def hawker.defs hawkerWithDistance.defs)

lemma set_sortByDistance:
  "set (sortByDistance rt a b hs) = withDistance rt a b ` set hs"
  by (simp add: sortByDistance_sort_key)

lemma sorted_sortByDistance: "sorted (map distance (sortByDistance rt a b hs))"
  by (simp add: sortByDistance_sort_key)

lemma slice0_take: "\<exists>n. slice0 e xs = take n xs"
  by (auto simp: slice0_def Let_def)

lemma length_slice0:
  assumes "0 \<le> e"
  shows "real (length (slice0 e xs)) \<le> e"
proof -
  have t: "ToIntegerOrInfinity e = \<lfloor>e\<rfloor>"
    using assms by (simp add: ToIntegerOrInfinity_def)
  have nn: "0 \<le> \<lfloor>e\<rfloor>"
    using assms by simp
  have "length (slice0 e xs) = min (length xs) (nat \<lfloor>e\<rfloor>)"
    using nn by (auto simp: slice0_def t Let_def min_def)
  then have "real (length (slice0 e xs)) \<le> real (nat \<lfloor>e\<rfloor>)"
    by simp
  also have "\<dots> = of_int \<lfloor>e\<rfloor>"
    using nn by simp
  also have "\<dots> \<le> e"
    by simp
  finally show ?thesis .
qed

lemma sorted_map_take: "sorted (map f xs) \<Longrightarrow> sorted (map f (take n xs))"
  by (simp add: take_map[symmetric] sorted_wrt_take)

lemma demo_distances:
  "distance (withDistance demoRuntime 0 0 placeA) = 2000"
  "distance (withDistance demoRuntime 0 0 placeB) = 1000"
  "distance (withDistance demoRuntime 0 0 placeC) = 7000"
  by (simp_all add: distance_withDistance calculateDistance_def demoRuntime_def
      placeA_def placeB_def placeC_def)

lemma demo_ranked:
  "sortByDistance demoRuntime 0 0 [placeA, placeB, placeC] =
     [withDistance demoRuntime 0 0 placeB, withDistance demoRuntime 0 0 placeA,
      withDistance demoRuntime 0 0 placeC]"
  by (simp add: sortByDistance_def sortBy_def demo_distances)

lemma demo_in_radius:
  "filter (\<lambda>h. distance h \<le> 5000) (sortByDistance demoRuntime 0 0 [placeA, placeB, placeC]) =
     [withDistance demoRuntime 0 0 placeB, withDistance demoRuntime 0 0 placeA]"
  by (simp add: demo_ranked demo_distances)

text \<open>
  C1, as stated, for every limit: a negative limit is a number too, and \<open>slice(0, limit)\<close>
  then drops entries from the end instead of keeping none. With the limit \<open>-1\<close> and two
  entries in the radius, one entry is returned, which is more than the limit.
\<close>

theorem C1_negative_limit_counterexample:
  "nearby demoRuntime 0 0 5000 (- 1) [placeA, placeB, placeC] =
     [withDistance demoRuntime 0 0 placeB] \<and>
   \<not> real (length (nearby demoRuntime 0 0 5000 (- 1) [placeA, placeB, placeC])) \<le> - 1"
proof -
  have "nearby demoRuntime 0 0 5000 (- 1) [placeA, placeB, placeC] =
          [withDistance demoRuntime 0 0 placeB]"
    by (simp add: nearby_def demo_in_radius slice0_def ToIntegerOrInfinity_def ceiling_minus)
  then show ?thesis by simp
qed

text \<open>
  C1, amended: for every collection, query coordinate and radius, every returned candidate
  carries the distance computed from the query point to its own coordinates, that distance
  is at most the radius, and the returned sequence is sorted non-decreasing by distance;
  for every limit that is not negative, at most \<open>limit\<close> candidates are returned.
\<close>

theorem C1_nearby_bounded_sorted:
  "(0 \<le> lm \<longrightarrow> real (length (nearby rt lat lon rd lm hs)) \<le> lm) \<and>
   (\<forall>c \<in> set (nearby rt lat lon rd lm hs).
      distance c = calculateDistance rt lat lon (hawker.latitude c) (hawker.longitude c) \<and>
      distance c \<le> rd) \<and>
   sorted (map distance (nearby rt lat lon rd lm hs))"
proof (intro conjI impI ballI)
  assume "0 \<le> lm"
  then show "real (length (nearby rt lat lon rd lm hs)) \<le> lm"
    unfolding nearby_def by (rule length_slice0)
next
  obtain n where n: "nearby rt lat lon rd lm hs =
      take n (filter (\<lambda>h. distance h \<le> rd) (sortByDistance rt lat lon hs))"
    unfolding nearby_def using slice0_take by blast
  { fix c
    assume "c \<in> set (nearby rt lat lon rd lm hs)"
    then have c: "c \<in> set (filter (\<lambda>h. distance h \<le> rd) (sortByDistance rt lat lon hs))"
      unfolding n by (rule in_set_takeD)
    then obtain h where "c = withDistance rt lat lon h"
      by (auto simp: set_sortByDistance)
    then show "distance c = calculateDistance rt lat lon (hawker.latitude c) (hawker.longitude c)"
      by (simp add: distance_withDistance fields_withDistance)
    from c show "distance c \<le> rd"
      by simp }
  show "sorted (map distance (nearby rt lat lon rd lm hs))"
    unfolding n by (intro sorted_map_take sorted_filter sorted_sortByDistance)
qed

theorem C1_nearby_bounded_sorted_witness:
  "(0::real) \<le> 1 \<and>
   nearby demoRuntime 0 0 5000 1 [placeA, placeB, placeC] = [withDistance demoRuntime 0 0 placeB] \<and>
   real (length (nearby demoRuntime 0 0 5000 1 [placeA, placeB, placeC])) \<le> 1 \<and>
   list_all (\<lambda>c. distance c \<le> 5000) (nearby demoRuntime 0 0 5000 1 [placeA, placeB, placeC]) \<and>
   sorted (map distance (nearby demoRuntime 0 0 5000 1 [placeA, placeB, placeC]))"
proof -
  have "nearby demoRuntime 0 0 5000 1 [placeA, placeB, placeC] =
          [withDistance demoRuntime 0 0 placeB]"
    by (simp add: nearby_def demo_in_radius slice0_def ToIntegerOrInfinity_def)
  then show ?thesis
    using C1_nearby_bounded_sorted [of 1 demoRuntime 0 0 5000 "[placeA, placeB, placeC]"]
    by (simp add: list_all_iff)
qed

text \<open>
  C10: \<open>sortByDistance\<close> returns the input collection in another order, each entry with
  all its fields as they were and the distance from the query point beside them. Cutting
  the distance off the result gives a permutation of the input, so no entry is dropped
  and none is invented.
\<close>

theorem C10_sortByDistance_frame:
  "mset (map hawker.truncate (sortByDistance rt lat lon hs)) = mset hs \<and>
   length (sortByDistance rt lat lon hs) = length hs \<and>
   list_all
     (\<lambda>c. distance c = calculateDistance rt lat lon (hawker.latitude c) (hawker.longitude c))
     (sortByDistance rt lat lon hs) \<and>
   hawker.name (withDistance rt lat lon h) = hawker.name h \<and>
   address (withDistance rt lat lon h) = address h \<and>
   hawker.latitude (withDistance rt lat lon h) = hawker.latitude h \<and>
   hawker.longitude (withDistance rt lat lon h) = hawker.longitude h \<and>
   stallCount (withDistance rt lat lon h) = stallCount h \<and>
   status (withDistance rt lat lon h) = status h \<and>
   postalCode (withDistance rt lat lon h) = postalCode h \<and>
   photoUrl (withDistance rt lat lon h) = photoUrl h \<and>
   description (withDistance rt lat lon h) = description h \<and>
   mset (sortByDistance rt lat lon hs) = image_mset (withDistance rt lat lon) (mset hs)"
proof -
  have "mset (map hawker.truncate (sortByDistance rt lat lon hs)) =
        image_mset hawker.truncate (mset (sortByDistance rt lat lon hs))"
    by simp
  also have "\<dots> = image_mset hawker.truncate (image_mset (withDistance rt lat lon) (mset hs))"
    by (simp add: sortByDistance_sort_key)
  also have "\<dots> = mset hs"
    by (simp add: image_mset.compositionality comp_def truncate_withDistance)
  finally have perm: "mset (map hawker.truncate (sortByDistance rt lat lon hs)) = mset hs" .
  have len: "length (sortByDistance rt lat lon hs) = length hs"
    by (simp add: sortByDistance_sort_key)
  have dist: "list_all
     (\<lambda>c. distance c = calculateDistance rt lat lon (hawker.latitude c) (hawker.longitude c))
     (sortByDistance rt lat lon hs)"
    by (auto simp: list_all_iff set_sortByDistance distance_withDistance fields_withDistance)
  show ?thesis
    using perm len dist by (simp add: fields_withDistance sortByDistance_sort_key)
qed

section \<open>Properties of the distance\<close>

lemma haversine_sym: "haversine p q = haversine q p"
proof -
  obtain lon1 lat1 lon2 lat2 where p: "p = (lon1, lat1)" and q: "q = (lon2, lat2)"
    by (cases p, cases q) auto
  have a: "degreesToRadians (x - y) / 2 = - (degreesToRadians (y - x) / 2)" for x y
    by (simp add: degreesToRadians_def field_simps)
  have "(sin (degreesToRadians (x - y) / 2))\<^sup>2 = (sin (degreesToRadians (y - x) / 2))\<^sup>2" for x y
    by (subst a) (simp only: sin_minus power2_minus)
  then show ?thesis
    by (simp add: haversine_def p q mult.commute mult.left_commute)
qed

lemma haversine_same: "haversine p p = 0"
  by (cases p) (simp add: haversine_def degreesToRadians_def)

lemma haversine_range: "0 \<le> haversine p q \<and> haversine p q \<le> 1"
proof -
  obtain lon1 lat1 lon2 lat2 where p: "p = (lon1, lat1)" and q: "q = (lon2, lat2)"
    by (cases p, cases q) auto
  define u where "u = degreesToRadians lat1"
  define v where "v = degreesToRadians lat2"
  define s where "s = (sin (degreesToRadians (lon2 - lon1) / 2))\<^sup>2"
  define c1 where "c1 = cos (u - v)"
  define c2 where "c2 = cos (u + v)"
  have d: "degreesToRadians (lat2 - lat1) = v - u"
    by (simp add: degreesToRadians_def u_def v_def field_simps)
  have s0: "0 \<le> s" and s1: "s \<le> 1"
    unfolding s_def by (simp_all add: abs_square_le_1 abs_sin_le_one)
  have b1: "- 1 \<le> c1" "c1 \<le> 1" and b2: "- 1 \<le> c2" "c2 \<le> 1"
    unfolding c1_def c2_def by simp_all
  have "2 * ((v - u) / 2) = v - u"
    by simp
  then have "cos (v - u) = 1 - 2 * (sin ((v - u) / 2))\<^sup>2"
    using cos_double_sin [of "(v - u) / 2"] by (simp only:)
  moreover have "cos (v - u) = c1"
    unfolding c1_def using cos_minus [of "u - v"] by simp
  ultimately have h1: "(sin ((v - u) / 2))\<^sup>2 = (1 - c1) / 2"
    by simp
  have h2: "cos u * cos v = (c1 + c2) / 2"
    unfolding c1_def c2_def by (rule cos_times_cos)
  have "haversine p q = (sin ((v - u) / 2))\<^sup>2 + s * (cos u * cos v)"
    using d by (simp add: haversine_def p q s_def u_def v_def mult.assoc)
  then have hv: "haversine p q = (1 - c1) / 2 + s * ((c1 + c2) / 2)"
    by (simp only: h1 h2)
  have e: "(1 - c1) / 2 + s * ((c1 + c2) / 2) = ((1 - s) * (1 - c1) + s * (1 + c2)) / 2"
    by (simp add: field_simps)
  have n1: "0 \<le> (1 - s) * (1 - c1)" and n2: "0 \<le> s * (1 + c2)"
    using s0 s1 b1 b2 by simp_all
  have m1: "(1 - s) * (1 - c1) \<le> (1 - s) * 2"
    using mult_left_mono [of "1 - c1" 2 "1 - s"] s1 b1 by simp
  have m2: "s * (1 + c2) \<le> s * 2"
    using mult_left_mono [of "1 + c2" 2 s] s0 b2 by simp
  have "0 \<le> haversine p q"
    unfolding hv e using n1 n2 by simp
  moreover have "haversine p q \<le> 1"
    unfolding hv e using m1 m2 by simp
  ultimately show ?thesis ..
qed

lemma greatCircleKm_nonneg: "0 \<le> greatCircleKm p q"
proof -
  have "0 \<le> sqrt (haversine p q)" "sqrt (haversine p q) \<le> 1"
    using haversine_range [of p q] by simp_all
  then have "0 \<le> arcsin (sqrt (haversine p q))"
    by (intro arcsin_nonneg) simp
  then show ?thesis
    by (simp add: greatCircleKm_def earthRadiusKm_def)
qed

text \<open>
  C7: with the great-circle formula of the specification in the place of Turf's distance,
  \<open>calculateDistance\<close> is symmetric in its two points, the distance from a point to
  itself is 0 (and so less than one millionth of a metre), and every distance is a
  non-negative real number. The statement is over the reals.
\<close>

theorem C7_distance_symmetric_zero_nonneg:
  "calculateDistance (rt\<lparr>turfDistance := greatCircleKm\<rparr>) lat1 lon1 lat2 lon2 =
     calculateDistance (rt\<lparr>turfDistance := greatCircleKm\<rparr>) lat2 lon2 lat1 lon1 \<and>
   calculateDistance (rt\<lparr>turfDistance := greatCircleKm\<rparr>) lat1 lon1 lat1 lon1 = 0 \<and>
   calculateDistance (rt\<lparr>turfDistance := greatCircleKm\<rparr>) lat1 lon1 lat1 lon1 < 1 / 10 ^ 6 \<and>
   0 \<le> calculateDistance (rt\<lparr>turfDistance := greatCircleKm\<rparr>) lat1 lon1 lat2 lon2"
proof -
  have s: "greatCircleKm (lon1, lat1) (lon2, lat2) = greatCircleKm (lon2, lat2) (lon1, lat1)"
    by (simp add: greatCircleKm_def haversine_sym [of "(lon1, lat1)"])
  have z: "greatCircleKm (lon1, lat1) (lon1, lat1) = 0"
    by (simp add: greatCircleKm_def haversine_same)
  show ?thesis
    using s z greatCircleKm_nonneg [of "(lon1, lat1)" "(lon2, lat2)"]
    by (simp add: calculateDistance_def)
qed

section \<open>Properties of the gateway\<close>

lemma getProp_absent: "props k = None \<Longrightarrow> getProp props k = JUndefined"
  by (simp add: getProp_def)

text \<open>
  C4, as stated: a feature with no properties at all gets a status that is not the empty
  string. The parser gives the status its own default, the literal \<open>'Unknown'\<close>.
\<close>

theorem C4_status_counterexample:
  "parseFeature demoRuntime noProperties =
     Inr \<lparr>hawker.name = JUndefined, address = ''undefined undefined'', postalCode = JStr '''',
          latitude = 1, longitude = 103, description = JStr '''', status = JStr ''Unknown'',
          stallCount = JNum 0, photoUrl = JStr ''''\<rparr> \<and>
   JStr ''Unknown'' \<noteq> JStr ''''"
  by (simp add: parseFeature_def noProperties_def getProp_def js_or_def)

text \<open>
  C4, amended: for every feature that parses (it has a properties object and a position),
  the stall count is 0 when the feed has no \<open>NUMBER_OF_COOKED_FOOD_STALLS\<close>; the postal
  code, the description and the photo URL are the empty string when their property is
  absent; the status is the string \<open>Unknown\<close> when \<open>STATUS\<close> is absent.
\<close>

theorem C4_parse_defaults:
  assumes "properties f = Some props" and "coordinates f = Some pos"
  shows "\<exists>h. parseFeature rt f = Inr h \<and>
           (props ''NUMBER_OF_COOKED_FOOD_STALLS'' = None \<longrightarrow> stallCount h = JNum 0) \<and>
           (props ''ADDRESSPOSTALCODE'' = None \<longrightarrow> postalCode h = JStr '''') \<and>
           (props ''DESCRIPTION'' = None \<longrightarrow> description h = JStr '''') \<and>
           (props ''PHOTOURL'' = None \<longrightarrow> photoUrl h = JStr '''') \<and>
           (props ''STATUS'' = None \<longrightarrow> status h = JStr ''Unknown'')"
  using assms
  by (cases pos) (simp add: parseFeature_def getProp_absent js_or_def)

theorem C4_parse_defaults_witness:
  "properties noProperties = Some Map.empty \<and>
   coordinates noProperties = Some (103, 1) \<and>
   (\<exists>h. parseFeature demoRuntime noProperties = Inr h \<and> stallCount h = JNum 0 \<and>
        postalCode h = JStr '''' \<and> description h = JStr '''' \<and> photoUrl h = JStr '''' \<and>
        status h = JStr ''Unknown'')"
proof -
  have p: "properties noProperties = Some Map.empty"
    and c: "coordinates noProperties = Some (103, 1)"
    by (simp_all add: noProperties_def)
  from C4_parse_defaults [OF p c, of demoRuntime] p c show ?thesis
    by simp
qed

lemma upstreamFailure_throws: "upstreamFailure w \<Longrightarrow> isl (tryFetchHawkers rt w)"
  by (auto simp: upstreamFailure_def tryFetchHawkers_def split: fetched.splits option.splits)

lemma fetch_failed:
  assumes "isl (tryFetchHawkers rt w)"
  shows "fetchHawkerCentres rt w g = ((case cachedHawkers g of None \<Rightarrow> [] | Some cached \<Rightarrow> cached), g)"
  using assms by (cases "tryFetchHawkers rt w") (auto simp: fetchHawkerCentres_def split: option.splits)

lemma nearby_tool_returns:
  "\<exists>res. getNearbyHawkersTool rt w g args = (Inr res, snd (fetchHawkerCentres rt w g))"
  by (simp add: getNearbyHawkersTool_def Let_def split: prod.splits)

lemma fetch_success:
  assumes "cachedHawkers g0 = None" and "tryFetchHawkers rt w0 = Inr hs"
  shows "fetchHawkerCentres rt w0 g0 =
           (hs, g0\<lparr>cachedHawkers := Some hs, cacheTimestamp := fetchedAt w0\<rparr>)"
  using assms by (simp add: fetchHawkerCentres_def)

text \<open>
  C2: when the point-of-interest fetch fails (a transport error or a non-success status at
  either step, or any other exception inside the \<open>try\<close> block), \<open>fetchHawkerCentres\<close>
  returns the cached collection as it is, expired or not, when there is one, and the empty
  collection when there is none; the cache and its time stamp stay as they were. Nothing is
  thrown: the nearby tool called through the dispatcher returns a result. In particular,
  after a first fetch that succeeded, a failing fetch returns what the first one fetched.
\<close>

theorem C2_stale_serving:
  assumes "upstreamFailure w \<or> isl (tryFetchHawkers rt w)"
  shows "fetchHawkerCentres rt w g =
           ((case cachedHawkers g of None \<Rightarrow> [] | Some cached \<Rightarrow> cached), g) \<and>
         (\<exists>res. callTool rt w g ''get_nearby_hawkers'' args = (Inr res, g)) \<and>
         (cachedHawkers g0 = None \<and> tryFetchHawkers rt w0 = Inr hs \<longrightarrow>
            fst (fetchHawkerCentres rt w (snd (fetchHawkerCentres rt w0 g0))) = hs)"
proof -
  from assms have f: "isl (tryFetchHawkers rt w)"
    using upstreamFailure_throws by blast
  have a: "fetchHawkerCentres rt w g' =
           ((case cachedHawkers g' of None \<Rightarrow> [] | Some cached \<Rightarrow> cached), g')" for g'
    using f by (rule fetch_failed)
  obtain res where "getNearbyHawkersTool rt w g args = (Inr res, g)"
    using nearby_tool_returns [of rt w g args] a by auto
  then have b: "callTool rt w g ''get_nearby_hawkers'' args = (Inr res, g)"
    by (simp add: callTool_def)
  have c: "fst (fetchHawkerCentres rt w (snd (fetchHawkerCentres rt w0 g0))) = hs"
    if "cachedHawkers g0 = None" and "tryFetchHawkers rt w0 = Inr hs"
    by (simp add: fetch_success [OF that] a)
  from a b c show ?thesis by blast
qed

lemma online_parsed: "tryFetchHawkers demoRuntime online = Inr [placeA]"
  by (simp add: tryFetchHawkers_def online_def featureA_def parseFeature_def getProp_def
      js_or_def placeA_def)

theorem C2_stale_serving_witness:
  "upstreamFailure unavailable \<and>
   upstreamFailure offline \<and>
   fetchHawkerCentres demoRuntime unavailable staleGateway =
     ([placeA, placeC, placeB], staleGateway) \<and>
   fetchHawkerCentres demoRuntime offline initialGateway = ([], initialGateway) \<and>
   tryFetchHawkers demoRuntime online = Inr [placeA] \<and>
   fst (fetchHawkerCentres demoRuntime offline
          (snd (fetchHawkerCentres demoRuntime online initialGateway))) = [placeA]"
proof -
  have u: "upstreamFailure unavailable" "upstreamFailure offline"
    by (simp_all add: upstreamFailure_def unavailable_def offline_def)
  have n: "cachedHawkers initialGateway = None"
    by (simp add: initialGateway_def)
  from C2_stale_serving [of unavailable demoRuntime staleGateway demoArgs]
       C2_stale_serving [of offline demoRuntime initialGateway demoArgs initialGateway online
         "[placeA]"]
       u n online_parsed
  show ?thesis
    by (simp add: staleGateway_def)
qed

section \<open>Properties of the dispatcher and the tools\<close>

text \<open>
  C3: for every tool name other than the three registered ones, the handler of
  \<open>tools/call\<close> throws the protocol error \<open>MethodNotFound\<close> with the message
  "Unknown tool: name"; it returns no content, and the gateway is not touched.
\<close>

theorem C3_unknown_tool:
  assumes "toolName \<notin> {''get_nearby_hawkers'', ''check_hawker_closures'', ''get_hawker_details''}"
  shows "callTool rt w g toolName args =
           (Inl (McpError MethodNotFound (''Unknown tool: '' @ toolName)), g)"
  using assms by (simp add: callTool_def)

theorem C3_unknown_tool_witness:
  "''get_weather'' \<notin> {''get_nearby_hawkers'', ''check_hawker_closures'', ''get_hawker_details''} \<and>
   callTool demoRuntime offline staleGateway ''get_weather'' demoArgs =
     (Inl (McpError MethodNotFound ''Unknown tool: get_weather''), staleGateway)"
proof -
  have n: "''get_weather'' \<notin> {''get_nearby_hawkers'', ''check_hawker_closures'', ''get_hawker_details''}"
    by simp
  from C3_unknown_tool [OF n, of demoRuntime offline staleGateway demoArgs] n show ?thesis
    by simp
qed

lemma startsWith_prefix: "startsWith s t = prefix t s"
  by (induction s t rule: startsWith.induct) auto

lemma includesStr_sublist: "includesStr s t = sublist t s"
proof (induction s)
  case Nil
  then show ?case by simp
next
  case (Cons d s)
  then show ?case
    by (simp add: startsWith_prefix sublist_Cons_right)
qed

lemma findJs_total:
  assumes "\<forall>x \<in> set xs. p x = Inr (q x)"
  shows "findJs p xs = Inr (find q xs)"
  using assms by (induction xs) auto

lemma filterJs_total:
  assumes "\<forall>x \<in> set xs. p x = Inr (q x)"
  shows "filterJs p xs = Inr (filter q xs)"
  using assms by (induction xs) auto

lemma nameEquals_string:
  "isString (hawker.name h) \<Longrightarrow>
     nameEquals rt subject h = Inr (equalsIgnoreCase rt subject (hawker.name h))"
  by (cases "hawker.name h") (simp_all add: nameEquals_def equalsIgnoreCase_def)

lemma nameIncludes_string:
  "isString v \<Longrightarrow> nameIncludes rt subject v = Inr (containsIgnoreCase rt subject v)"
  by (cases v) (simp_all add: nameIncludes_def containsIgnoreCase_def includesStr_sublist)

lemma findHawker_select:
  assumes "list_all (\<lambda>h. isString (hawker.name h)) hs"
  shows "findHawker rt hs subject = Inr (selectHawker rt hs subject)"
proof -
  from assms have s: "\<forall>h \<in> set hs. isString (hawker.name h)"
    by (simp add: list_all_iff)
  have e: "findJs (nameEquals rt subject) hs =
             Inr (find (\<lambda>h. equalsIgnoreCase rt subject (hawker.name h)) hs)"
    by (rule findJs_total) (simp add: s nameEquals_string)
  have i: "findJs (\<lambda>h. nameIncludes rt subject (hawker.name h)) hs =
             Inr (find (\<lambda>h. containsIgnoreCase rt subject (hawker.name h)) hs)"
    by (rule findJs_total) (simp add: s nameIncludes_string)
  show ?thesis
    by (simp add: findHawker_def selectHawker_def e i split: option.splits)
qed

lemma lower_demo:
  "asciiLowerCase ''Place A'' = ''place a''"
  "asciiLowerCase ''Place B'' = ''place b''"
  "asciiLowerCase ''Other Place B'' = ''other place b''"
  "asciiLowerCase ''place b'' = ''place b''"
  "asciiLowerCase ''OTHER'' = ''other''"
  "asciiLowerCase ''Place Z'' = ''place z''"
  "asciiLowerCase ''nowhere'' = ''nowhere''"
  by (simp_all add: asciiLowerCase_def lowerChar_def)

lemma lower_demoRuntime: "toLowerCase demoRuntime = asciiLowerCase"
  by (simp add: demoRuntime_def)

lemma nameless_fetched:
  "fst (fetchHawkerCentres demoRuntime namelessFeed initialGateway) = [placeA, namelessPlace]"
  by (simp add: fetchHawkerCentres_def tryFetchHawkers_def namelessFeed_def online_def
      initialGateway_def CACHE_DURATION_def featureA_def noProperties_def parseFeature_def
      getProp_def js_or_def placeA_def namelessPlace_def demoRuntime_def)

text \<open>
  C5, as stated, for every collection: the gateway gives the name no default, so a feature
  of the feed without \<open>NAME\<close> becomes an entry whose name is \<open>undefined\<close>. On the
  collection the gateway itself builds from such a feed, a subject that matches no entry
  does not get the "Could not find" sentence: the test \<open>h.name.toLowerCase()\<close> throws
  on the nameless entry, and the dispatcher answers with an internal error.
\<close>

theorem C5_nameless_entry_counterexample:
  "fst (fetchHawkerCentres demoRuntime namelessFeed initialGateway) = [placeA, namelessPlace] \<and>
   fst (callTool demoRuntime namelessFeed initialGateway ''get_hawker_details''
          (demoArgs\<lparr>hawkerName := ''nowhere''\<rparr>)) =
     Inl (McpError InternalError ''Tool execution failed: Cannot read properties of undefined'')"
proof -
  have "hawkerDetails demoRuntime [placeA, namelessPlace] ''nowhere'' =
          Inl (TypeError ''Cannot read properties of undefined'')"
    by (simp add: hawkerDetails_def findHawker_def nameEquals_def placeA_def namelessPlace_def
        lower_demoRuntime lower_demo)
  then have "fst (getHawkerDetailsTool demoRuntime namelessFeed initialGateway
                   (demoArgs\<lparr>hawkerName := ''nowhere''\<rparr>)) =
          Inl (TypeError ''Cannot read properties of undefined'')"
    using nameless_fetched
    by (simp add: getHawkerDetailsTool_def split_def)
  then show ?thesis
    using nameless_fetched by (simp add: callTool_def split_def)
qed

text \<open>
  C5, amended: for every collection of points of interest whose names are all strings and
  every subject, \<open>getHawkerDetailsTool\<close> selects the first entry whose name equals the
  subject case-insensitively; when there is none, the first entry whose name contains the
  subject case-insensitively; when there is none either, it returns a result, and no error,
  whose one text block is the sentence "Could not find details for "subject". Please check
  the name and try again."; when an entry is selected, the block is that entry's details.
\<close>

theorem C5_details_selection:
  assumes "list_all (\<lambda>h. isString (hawker.name h)) hs"
  shows "findHawker rt hs subject = Inr (selectHawker rt hs subject) \<and>
         hawkerDetails rt hs subject =
           Inr \<lparr>content =
                 [\<lparr>blockType = ''text'',
                   blockText =
                     (case selectHawker rt hs subject of
                        None \<Rightarrow>
                          ''Could not find details for \"'' @ subject @
                          ''\". Please check the name and try again.''
                      | Some h \<Rightarrow>
                          ''Details for '' @ toStr rt (hawker.name h) @ '':'' @
                          [CHR 0x0A, CHR 0x0A] @
                          ''Address: '' @ address h @ '', Singapore '' @ toStr rt (postalCode h) @
                          [CHR 0x0A] @
                          ''Status: '' @ toStr rt (status h) @ [CHR 0x0A] @
                          ''Number of Stalls: '' @ toStr rt (stallCount h) @
                          '' cooked food stalls'' @ [CHR 0x0A] @
                          ''Coordinates: '' @ numToString rt (hawker.latitude h) @ '', '' @
                          numToString rt (hawker.longitude h) @ [CHR 0x0A] @
                          (if truthy (description h)
                           then [CHR 0x0A] @ ''Description: '' @ toStr rt (description h) @
                                [CHR 0x0A]
                           else []) @
                          (if truthy (photoUrl h)
                           then [CHR 0x0A] @ ''!['' @ toStr rt (hawker.name h) @ ''](''  @
                                toStr rt (photoUrl h) @ '')''
                           else []))\<rparr>]\<rparr> \<and>
         (fetchHawkerCentres rt w g = (hs, g') \<longrightarrow>
            getHawkerDetailsTool rt w g (args\<lparr>hawkerName := subject\<rparr>) =
              (hawkerDetails rt hs subject, g'))"
  using findHawker_select [OF assms, of rt subject]
  by (simp add: hawkerDetails_def getHawkerDetailsTool_def textResult_def notFoundText_def
      detailsText_def nl_def split: option.splits)

lemma select_demo:
  "selectHawker demoRuntime [placeA, placeC, placeB] ''place b'' = Some placeB"
  "selectHawker demoRuntime [placeA, placeC, placeB] ''OTHER'' = Some placeC"
  "selectHawker demoRuntime [placeA, placeC, placeB] ''Place Z'' = None"
  by (simp_all add: selectHawker_def equalsIgnoreCase_def containsIgnoreCase_def
      placeA_def placeB_def placeC_def lower_demoRuntime lower_demo sublist_code(3) prefix_code(2))

lemma stale_served:
  "fetchHawkerCentres demoRuntime offline staleGateway = ([placeA, placeC, placeB], staleGateway)"
  by (simp add: fetchHawkerCentres_def tryFetchHawkers_def offline_def staleGateway_def
      CACHE_DURATION_def)

theorem C5_details_selection_witness:
  "list_all (\<lambda>h. isString (hawker.name h)) [placeA, placeC, placeB] \<and>
   fetchHawkerCentres demoRuntime offline staleGateway = ([placeA, placeC, placeB], staleGateway) \<and>
   getHawkerDetailsTool demoRuntime offline staleGateway (demoArgs\<lparr>hawkerName := ''place b''\<rparr>) =
     (Inr \<lparr>content =
            [\<lparr>blockType = ''text'',
              blockText =
                ''Details for Place B:'' @ [CHR 0x0A, CHR 0x0A] @
                ''Address: 2 Second Road, Singapore 100002'' @ [CHR 0x0A] @
                ''Status: Operational'' @ [CHR 0x0A] @
                ''Number of Stalls: # cooked food stalls'' @ [CHR 0x0A] @
                ''Coordinates: #, #'' @ [CHR 0x0A] @
                [CHR 0x0A] @ ''Description: Old market'' @ [CHR 0x0A]\<rparr>]\<rparr>,
      staleGateway) \<and>
   findHawker demoRuntime [placeA, placeC, placeB] ''OTHER'' = Inr (Some placeC) \<and>
   getHawkerDetailsTool demoRuntime offline staleGateway (demoArgs\<lparr>hawkerName := ''Place Z''\<rparr>) =
     (Inr \<lparr>content =
            [\<lparr>blockType = ''text'',
              blockText =
                ''Could not find details for \"Place Z\". Please check the name and try again.''\<rparr>]\<rparr>,
      staleGateway)"
proof -
  have t: "list_all (\<lambda>h. isString (hawker.name h)) [placeA, placeC, placeB]"
    by (simp add: placeA_def placeB_def placeC_def)
  have b: "toStr demoRuntime (hawker.name placeB) = ''Place B''"
    "address placeB = ''2 Second Road''"
    "toStr demoRuntime (postalCode placeB) = ''100002''"
    "toStr demoRuntime (status placeB) = ''Operational''"
    "toStr demoRuntime (stallCount placeB) = ''#''"
    "numToString demoRuntime x = ''#''"
    "description placeB = JStr ''Old market''"
    "photoUrl placeB = JStr ''''" for x
    by (simp_all add: placeB_def demoRuntime_def)
  from C5_details_selection [OF t, of demoRuntime "''place b''" offline staleGateway staleGateway demoArgs]
       C5_details_selection [OF t, of demoRuntime "''OTHER''" offline staleGateway staleGateway demoArgs]
       C5_details_selection [OF t, of demoRuntime "''Place Z''" offline staleGateway staleGateway demoArgs]
       t stale_served
  show ?thesis
    by (simp add: select_demo b)
qed

lemma numeric_name_fetched:
  "fst (fetchHawkerClosures numericNameFeed initialGateway) =
     [\<lparr>closure.name = JNum 5, quarter = JStr ''Q2'', closureDates = JStr ''5 to 8 Apr'',
       reason = JStr ''Repairs''\<rparr>]"
  by (simp add: fetchHawkerClosures_def tryFetchClosures_def numericNameFeed_def offline_def
      initialGateway_def CLOSURE_CACHE_DURATION_def parseRecord_def recordFive_def getProp_def
      js_or_def)

text \<open>
  C6, as stated, for every closure collection: the gateway keeps a name that is truthy and
  not a string (\<open>record.name || ''\<close>). On the collection the gateway itself builds from a
  feed record whose name is the number 5, no record's name contains the subject, and yet
  the tool does not return the "No scheduled closures" sentence:
  \<open>c.name.toLowerCase()\<close> throws, and the dispatcher answers with an internal error.
\<close>

theorem C6_numeric_name_counterexample:
  "fst (fetchHawkerClosures numericNameFeed initialGateway) =
     [\<lparr>closure.name = JNum 5, quarter = JStr ''Q2'', closureDates = JStr ''5 to 8 Apr'',
       reason = JStr ''Repairs''\<rparr>] \<and>
   fst (callTool demoRuntime numericNameFeed initialGateway ''check_hawker_closures''
          (demoArgs\<lparr>hawkerName := ''place b''\<rparr>)) =
     Inl (McpError InternalError ''Tool execution failed: toLowerCase is not a function'')"
proof -
  have "fst (getClosuresTool demoRuntime numericNameFeed initialGateway
               (demoArgs\<lparr>hawkerName := ''place b''\<rparr>)) =
          Inl (TypeError ''toLowerCase is not a function'')"
    using numeric_name_fetched
    by (simp add: getClosuresTool_def closuresInfo_def matchingClosures_def nameIncludes_def
        split_def)
  then show ?thesis
    using numeric_name_fetched by (simp add: callTool_def split_def)
qed

text \<open>
  C6, amended: for every collection of closure records whose names are all strings and
  every subject, \<open>getClosuresTool\<close> keeps exactly the records whose name contains the
  subject case-insensitively, in their order, and returns a result, never an error, with
  one text block: when no record matches, the sentence "No scheduled closures found for
  "subject". It should be open as per the latest data."; otherwise the heading "Closure
  information for "subject":" followed by one entry for each matching record, with its
  quarter, its dates and its reason.
\<close>

theorem C6_closures_matching:
  assumes "list_all (\<lambda>c. isString (closure.name c)) cs"
  shows "matchingClosures rt cs subject =
           Inr (filter (\<lambda>c. containsIgnoreCase rt subject (closure.name c)) cs) \<and>
         closuresInfo rt cs subject =
           Inr \<lparr>content =
                 [\<lparr>blockType = ''text'',
                   blockText =
                     (if filter (\<lambda>c. containsIgnoreCase rt subject (closure.name c)) cs = []
                      then ''No scheduled closures found for \"'' @ subject @
                           ''\". It should be open as per the latest data.''
                      else ''Closure information for \"'' @ subject @ ''\":'' @
                           [CHR 0x0A, CHR 0x0A] @
                           joinStr [CHR 0x0A, CHR 0x0A]
                             (map (\<lambda>c. [CHR 0xC3, CHR 0xA2, CHR 0xE2, CHR 0x82, CHR 0xAC,
                                         CHR 0xC2, CHR 0xA2] @ '' '' @
                                        toStr rt (quarter c) @ '': '' @
                                        toStr rt (closureDates c) @ [CHR 0x0A] @
                                        ''  Reason: '' @ toStr rt (reason c))
                                (filter (\<lambda>c. containsIgnoreCase rt subject (closure.name c))
                                   cs)))\<rparr>]\<rparr> \<and>
         (fetchHawkerClosures w g = (cs, g') \<longrightarrow>
            getClosuresTool rt w g (args\<lparr>hawkerName := subject\<rparr>) =
              (closuresInfo rt cs subject, g'))"
proof -
  from assms have s: "\<forall>c \<in> set cs. isString (closure.name c)"
    by (simp add: list_all_iff)
  have m: "matchingClosures rt cs subject =
           Inr (filter (\<lambda>c. containsIgnoreCase rt subject (closure.name c)) cs)"
    unfolding matchingClosures_def
    by (rule filterJs_total) (simp add: s nameIncludes_string)
  have e: "closureEntry rt =
      (\<lambda>c. [CHR 0xC3, CHR 0xA2, CHR 0xE2, CHR 0x82, CHR 0xAC, CHR 0xC2, CHR 0xA2] @ '' '' @
            toStr rt (quarter c) @ '': '' @ toStr rt (closureDates c) @ [CHR 0x0A] @
            ''  Reason: '' @ toStr rt (reason c))"
    by (rule ext) (simp add: closureEntry_def nl_def)
  show ?thesis
    by (simp add: m e closuresInfo_def getClosuresTool_def textResult_def noClosuresText_def
        nl_def)
qed

lemma closures_fetched:
  "fetchHawkerClosures closureFeed initialGateway =
     ([closureB], initialGateway\<lparr>cachedClosures := Some [closureB], closureCacheTimestamp := 100000001\<rparr>)"
  by (simp add: fetchHawkerClosures_def tryFetchClosures_def closureFeed_def offline_def
      initialGateway_def parseRecord_def recordB_def closureB_def getProp_def js_or_def)

theorem C6_closures_matching_witness:
  "list_all (\<lambda>c. isString (closure.name c)) [closureB] \<and>
   matchingClosures demoRuntime [closureB] ''place b'' = Inr [closureB] \<and>
   getClosuresTool demoRuntime closureFeed initialGateway (demoArgs\<lparr>hawkerName := ''place b''\<rparr>) =
     (Inr \<lparr>content =
            [\<lparr>blockType = ''text'',
              blockText =
                ''Closure information for \"place b\":'' @ [CHR 0x0A, CHR 0x0A] @
                [CHR 0xC3, CHR 0xA2, CHR 0xE2, CHR 0x82, CHR 0xAC, CHR 0xC2, CHR 0xA2] @
                '' Q1: 1 to 4 Jan'' @ [CHR 0x0A] @ ''  Reason: Cleaning''\<rparr>]\<rparr>,
      initialGateway\<lparr>cachedClosures := Some [closureB], closureCacheTimestamp := 100000001\<rparr>) \<and>
   matchingClosures demoRuntime [closureB] ''Place A'' = Inr [] \<and>
   getClosuresTool demoRuntime closureFeed initialGateway (demoArgs\<lparr>hawkerName := ''Place A''\<rparr>) =
     (Inr \<lparr>content =
            [\<lparr>blockType = ''text'',
              blockText =
                ''No scheduled closures found for \"Place A\". It should be open as per the latest data.''\<rparr>]\<rparr>,
      initialGateway\<lparr>cachedClosures := Some [closureB], closureCacheTimestamp := 100000001\<rparr>)"
proof -
  have t: "list_all (\<lambda>c. isString (closure.name c)) [closureB]"
    by (simp add: closureB_def)
  have f: "filter (\<lambda>c. containsIgnoreCase demoRuntime ''place b'' (closure.name c)) [closureB] = [closureB]"
     "filter (\<lambda>c. containsIgnoreCase demoRuntime ''Place A'' (closure.name c)) [closureB] = []"
    by (simp_all add: containsIgnoreCase_def closureB_def lower_demoRuntime lower_demo
        sublist_code(3) prefix_code(2))
  have b: "toStr demoRuntime (quarter closureB) = ''Q1''"
    "toStr demoRuntime (closureDates closureB) = ''1 to 4 Jan''"
    "toStr demoRuntime (reason closureB) = ''Cleaning''"
    by (simp_all add: closureB_def)
  from C6_closures_matching [OF t, of demoRuntime "''place b''" closureFeed initialGateway
         "initialGateway\<lparr>cachedClosures := Some [closureB], closureCacheTimestamp := 100000001\<rparr>"
         demoArgs]
       C6_closures_matching [OF t, of demoRuntime "''Place A''" closureFeed initialGateway
         "initialGateway\<lparr>cachedClosures := Some [closureB], closureCacheTimestamp := 100000001\<rparr>"
         demoArgs]
       t f closures_fetched
  show ?thesis by (simp add: b)
qed

section \<open>Properties of the bridge\<close>

lemma rejectPromise_fields [simp]:
  "process (rejectPromise p e c) = process c"
  "messageId (rejectPromise p e c) = messageId c"
  "pendingRequests (rejectPromise p e c) = pendingRequests c"
  by (simp_all add: rejectPromise_def)

lemma resolvePromise_fields [simp]:
  "process (resolvePromise p v c) = process c"
  "messageId (resolvePromise p v c) = messageId c"
  "pendingRequests (resolvePromise p v c) = pendingRequests c"
  by (simp_all add: resolvePromise_def)

lemma rejectPromise_promises:
  "promises (rejectPromise p e c) q =
     (if q = p \<and> promises c p = Some Pending then Some (Rejected e) else promises c q)"
  by (simp add: rejectPromise_def)

lemma resolvePromise_promises:
  "promises (resolvePromise p v c) q =
     (if q = p \<and> promises c p = Some Pending then Some (Fulfilled v) else promises c q)"
  by (simp add: resolvePromise_def)

lemma rejectAll_fields [simp]:
  "process (fold (\<lambda>(i, p). rejectPromise p e) al c) = process c"
  "messageId (fold (\<lambda>(i, p). rejectPromise p e) al c) = messageId c"
  "pendingRequests (fold (\<lambda>(i, p). rejectPromise p e) al c) = pendingRequests c"
  by (induction al arbitrary: c; simp add: case_prod_beta)+

lemma rejectAll_promises:
  "promises (fold (\<lambda>(i, p). rejectPromise p e) al c) q =
     (if q \<in> snd ` set al \<and> promises c q = Some Pending then Some (Rejected e) else promises c q)"
proof (induction al arbitrary: c)
  case Nil
  then show ?case by simp
next
  case (Cons a al)
  then show ?case
    by (cases a) (auto simp: rejectPromise_promises)
qed

lemma set_update_subset: "set (AList.update k v al) \<subseteq> insert (k, v) (set al)"
  by (induction al) auto

lemma set_delete_subset: "set (AList.delete k al) \<subseteq> set al"
  by (auto simp: AList.delete_eq)

lemma key_not_in_delete: "(k, v) \<notin> set (AList.delete k al)"
  by (auto simp: AList.delete_eq)

lemma consistentI:
  assumes "\<And>i p. (i, p) \<in> set (pendingRequests c) \<Longrightarrow>
             p = i \<and> promises c i = Some Pending \<and> i \<le> messageId c"
    and "\<And>i. promises c i \<noteq> None \<Longrightarrow> i \<le> messageId c"
  shows "consistent c"
  using assms by (auto simp: consistent_def list_all_iff)

lemma consistentD:
  assumes "consistent c"
  shows "(i, p) \<in> set (pendingRequests c) \<Longrightarrow> p = i \<and> promises c i = Some Pending \<and> i \<le> messageId c"
    and "promises c j \<noteq> None \<Longrightarrow> j \<le> messageId c"
  using assms by (auto simp: consistent_def list_all_iff)

lemma consistent_newClient: "consistent newClient"
  by (simp add: consistent_def newClient_def)

lemma consistent_start: "consistent c \<Longrightarrow> consistent (snd (start ch c))"
  by (auto simp: start_def consistent_def Let_def)

lemma consistent_stop: "consistent c \<Longrightarrow> consistent (stop c)"
  by (auto simp: stop_def consistent_def)

lemma consistent_sendRequest:
  assumes "consistent c"
  shows "consistent (snd (sendRequest c))"
proof (cases "case process c of None \<Rightarrow> True | Some ch \<Rightarrow> \<not> stdin ch")
  case True
  then show ?thesis using assms by (simp add: sendRequest_def)
next
  case False
  let ?i = "messageId c + 1"
  have s: "snd (sendRequest c) =
      c\<lparr>messageId := ?i, promises := (promises c)(?i \<mapsto> Pending),
        pendingRequests := AList.update ?i ?i (pendingRequests c)\<rparr>"
    using False by (simp add: sendRequest_def Let_def)
  show ?thesis
    unfolding s
  proof (rule consistentI)
    fix i p
    assume "(i, p) \<in> set (pendingRequests (c\<lparr>messageId := ?i, promises := (promises c)(?i \<mapsto> Pending),
        pendingRequests := AList.update ?i ?i (pendingRequests c)\<rparr>))"
    then have "(i, p) = (?i, ?i) \<or> (i, p) \<in> set (pendingRequests c)"
      using set_update_subset [of ?i ?i "pendingRequests c"] by auto
    then show "p = i \<and>
         promises (c\<lparr>messageId := ?i, promises := (promises c)(?i \<mapsto> Pending),
        pendingRequests := AList.update ?i ?i (pendingRequests c)\<rparr>) i = Some Pending \<and>
         i \<le> messageId (c\<lparr>messageId := ?i, promises := (promises c)(?i \<mapsto> Pending),
        pendingRequests := AList.update ?i ?i (pendingRequests c)\<rparr>)"
      using consistentD(1) [OF assms, of i p] by auto
  next
    fix i
    assume "promises (c\<lparr>messageId := ?i, promises := (promises c)(?i \<mapsto> Pending),
        pendingRequests := AList.update ?i ?i (pendingRequests c)\<rparr>) i \<noteq> None"
    then show "i \<le> messageId (c\<lparr>messageId := ?i, promises := (promises c)(?i \<mapsto> Pending),
        pendingRequests := AList.update ?i ?i (pendingRequests c)\<rparr>)"
      using consistentD(2) [OF assms, of i] by (auto split: if_splits)
  qed
qed

text \<open>Removing the entry of a request and settling its promise keeps the invariant.\<close>

lemma consistent_delete_reject:
  assumes "consistent c"
  shows "consistent (rejectPromise i e (c\<lparr>pendingRequests := AList.delete i (pendingRequests c)\<rparr>))"
proof (rule consistentI)
  fix j p
  assume "(j, p) \<in> set (pendingRequests (rejectPromise i e (c\<lparr>pendingRequests := AList.delete i (pendingRequests c)\<rparr>)))"
  then have m: "(j, p) \<in> set (AList.delete i (pendingRequests c))"
    by simp
  then have o: "(j, p) \<in> set (pendingRequests c)" and n: "j \<noteq> i"
    using set_delete_subset [of i "pendingRequests c"] key_not_in_delete [of i p "pendingRequests c"]
    by auto
  from consistentD(1) [OF assms o] n
  show "p = j \<and> promises (rejectPromise i e (c\<lparr>pendingRequests := AList.delete i (pendingRequests c)\<rparr>)) j = Some Pending \<and>
        j \<le> messageId (rejectPromise i e (c\<lparr>pendingRequests := AList.delete i (pendingRequests c)\<rparr>))"
    by (simp add: rejectPromise_promises)
next
  fix j
  assume "promises (rejectPromise i e (c\<lparr>pendingRequests := AList.delete i (pendingRequests c)\<rparr>)) j \<noteq> None"
  then have "promises c j \<noteq> None"
    by (auto simp: rejectPromise_promises split: if_splits)
  then show "j \<le> messageId (rejectPromise i e (c\<lparr>pendingRequests := AList.delete i (pendingRequests c)\<rparr>))"
    using consistentD(2) [OF assms] by simp
qed

lemma consistent_delete_resolve:
  assumes "consistent c"
  shows "consistent (resolvePromise i v (c\<lparr>pendingRequests := AList.delete i (pendingRequests c)\<rparr>))"
proof (rule consistentI)
  fix j p
  assume "(j, p) \<in> set (pendingRequests (resolvePromise i v (c\<lparr>pendingRequests := AList.delete i (pendingRequests c)\<rparr>)))"
  then have m: "(j, p) \<in> set (AList.delete i (pendingRequests c))"
    by simp
  then have o: "(j, p) \<in> set (pendingRequests c)" and n: "j \<noteq> i"
    using set_delete_subset [of i "pendingRequests c"] key_not_in_delete [of i p "pendingRequests c"]
    by auto
  from consistentD(1) [OF assms o] n
  show "p = j \<and> promises (resolvePromise i v (c\<lparr>pendingRequests := AList.delete i (pendingRequests c)\<rparr>)) j = Some Pending \<and>
        j \<le> messageId (resolvePromise i v (c\<lparr>pendingRequests := AList.delete i (pendingRequests c)\<rparr>))"
    by (simp add: resolvePromise_promises)
next
  fix j
  assume "promises (resolvePromise i v (c\<lparr>pendingRequests := AList.delete i (pendingRequests c)\<rparr>)) j \<noteq> None"
  then have "promises c j \<noteq> None"
    by (auto simp: resolvePromise_promises split: if_splits)
  then show "j \<le> messageId (resolvePromise i v (c\<lparr>pendingRequests := AList.delete i (pendingRequests c)\<rparr>))"
    using consistentD(2) [OF assms] by simp
qed

lemma pending_same_promise:
  assumes "consistent c" and "map_of (pendingRequests c) i = Some p"
  shows "p = i" and "promises c i = Some Pending" and "i \<le> messageId c"
  using consistentD(1) [OF assms(1) map_of_SomeD [OF assms(2)]] by auto

lemma consistent_handleMessage:
  assumes "consistent c"
  shows "consistent (handleMessage m c)"
proof (cases "msgId m")
  case None
  then show ?thesis using assms by (simp add: handleMessage_def)
next
  case (Some i)
  show ?thesis
  proof (cases "map_of (pendingRequests c) i")
    case None
    then show ?thesis using assms Some by (simp add: handleMessage_def)
  next
    case (Some p)
    then have p: "p = i"
      using pending_same_promise(1) [OF assms] by simp
    show ?thesis
      using \<open>msgId m = Some i\<close> Some p
        consistent_delete_reject [OF assms] consistent_delete_resolve [OF assms]
      by (simp add: handleMessage_def Let_def split: option.splits)
  qed
qed

lemma consistent_writeFailed: "consistent c \<Longrightarrow> consistent (writeFailed i e c)"
  by (simp add: writeFailed_def consistent_delete_reject)

lemma consistent_requestTimeout: "consistent c \<Longrightarrow> consistent (requestTimeout i c)"
  by (simp add: requestTimeout_def consistent_delete_reject)

lemma onExit_fields:
  "process (onExit c) = None"
  "pendingRequests (onExit c) = []"
  "messageId (onExit c) = messageId c"
  "promises (onExit c) q =
     (if q \<in> snd ` set (pendingRequests c) \<and> promises c q = Some Pending
      then Some (Rejected ''MCP server exited'') else promises c q)"
  by (simp_all add: onExit_def Let_def rejectAll_promises)

lemma consistent_onExit:
  assumes "consistent c"
  shows "consistent (onExit c)"
proof (rule consistentI)
  fix i p
  assume "(i, p) \<in> set (pendingRequests (onExit c))"
  then show "p = i \<and> promises (onExit c) i = Some Pending \<and> i \<le> messageId (onExit c)"
    by (simp add: onExit_fields)
next
  fix i
  assume "promises (onExit c) i \<noteq> None"
  then have "promises c i \<noteq> None"
    by (auto simp: onExit_fields split: if_splits)
  then show "i \<le> messageId (onExit c)"
    using consistentD(2) [OF assms] by (simp add: onExit_fields)
qed

lemma consistent_step: "consistent c \<Longrightarrow> consistent (step e c)"
  by (cases e)
    (simp_all add: consistent_start consistent_sendRequest consistent_handleMessage
      consistent_writeFailed consistent_requestTimeout consistent_onExit consistent_stop)

lemma consistent_run: "consistent c \<Longrightarrow> consistent (run es c)"
  unfolding run_def by (induction es arbitrary: c) (simp_all add: consistent_step)

lemma handleMessage_pending:
  "pendingRequests (handleMessage m c) = pendingRequests c \<or>
   (\<exists>j. pendingRequests (handleMessage m c) = AList.delete j (pendingRequests c))"
  by (auto simp: handleMessage_def Let_def split: option.splits)

lemma handleMessage_messageId [simp]: "messageId (handleMessage m c) = messageId c"
  by (simp add: handleMessage_def Let_def split: option.splits)

lemma handleMessage_process [simp]: "process (handleMessage m c) = process c"
  by (simp add: handleMessage_def Let_def split: option.splits)

lemma handleMessage_unknown_id:
  assumes "msgId m = Some i" and "map_of (pendingRequests c) i = None"
  shows "handleMessage m c = c"
  using assms by (simp add: handleMessage_def)

lemma settled_step:
  assumes "settled i c"
  shows "settled i (step e c)"
proof (cases e)
  case (Start ch)
  then show ?thesis using assms by (auto simp: settled_def start_def Let_def)
next
  case Send
  then show ?thesis using assms
    by (auto simp: settled_def sendRequest_def Let_def update_conv')
next
  case (Message m)
  then show ?thesis
    using assms handleMessage_pending [of m c]
    by (auto simp: settled_def delete_conv')
next
  case (WriteFailed j err)
  then show ?thesis using assms by (simp add: settled_def writeFailed_def delete_conv')
next
  case (TimerFired j)
  then show ?thesis using assms by (simp add: settled_def requestTimeout_def delete_conv')
next
  case Exited
  then show ?thesis using assms by (simp add: settled_def onExit_fields)
next
  case Stop
  then show ?thesis using assms by (simp add: settled_def stop_def)
qed

lemma settled_run: "settled i c \<Longrightarrow> settled i (run es c)"
  unfolding run_def by (induction es arbitrary: c) (simp_all add: settled_step)

text \<open>
  C8: in every state the client reaches, when the timer of request \<open>i\<close> fires and the
  request is still waiting (no response, write failure or exit has removed its entry), its
  promise is rejected with "MCP request timeout" and its entry is removed; from then on,
  whatever happens in between, a response that carries the id \<open>i\<close> changes nothing.
\<close>

theorem C8_timeout_rejects:
  assumes "c = run es newClient" and "map_of (pendingRequests c) i \<noteq> None"
  shows "promises (requestTimeout i c) i = Some (Rejected ''MCP request timeout'') \<and>
         map_of (pendingRequests (requestTimeout i c)) i = None \<and>
         (\<forall>later m. msgId m = Some i \<longrightarrow>
            handleMessage m (run later (requestTimeout i c)) = run later (requestTimeout i c))"
proof -
  have inv: "consistent c"
    unfolding assms(1) by (rule consistent_run [OF consistent_newClient])
  from assms(2) obtain p where p: "map_of (pendingRequests c) i = Some p"
    by auto
  note pend = pending_same_promise [OF inv p]
  have t: "requestTimeout i c =
      rejectPromise i ''MCP request timeout'' (c\<lparr>pendingRequests := AList.delete i (pendingRequests c)\<rparr>)"
    using assms(2) by (simp add: requestTimeout_def)
  have a: "promises (requestTimeout i c) i = Some (Rejected ''MCP request timeout'')"
    unfolding t using pend(2) by (simp add: rejectPromise_promises)
  have b: "map_of (pendingRequests (requestTimeout i c)) i = None"
    unfolding t by (simp add: delete_conv')
  have "settled i (requestTimeout i c)"
    using b pend(3) unfolding settled_def t by simp
  then have "settled i (run later (requestTimeout i c))" for later
    by (rule settled_run)
  then have "handleMessage m (run later (requestTimeout i c)) = run later (requestTimeout i c)"
    if "msgId m = Some i" for later m
    using that handleMessage_unknown_id [of m i] by (simp add: settled_def)
  with a b show ?thesis by blast
qed

lemma demo_run:
  "pendingRequests (run [Start piped, Send] newClient) = [(1, 1)]"
  "process (run [Start piped, Send] newClient) = Some piped"
  "messageId (run [Start piped, Send] newClient) = 1"
  by (simp_all add: run_def start_def sendRequest_def newClient_def piped_def Let_def)

theorem C8_timeout_rejects_witness:
  "map_of (pendingRequests (run [Start piped, Send] (newClient :: string client))) 1 \<noteq> None \<and>
   promises (requestTimeout 1 (run [Start piped, Send] (newClient :: string client))) 1 =
     Some (Rejected ''MCP request timeout'') \<and>
   pendingRequests (requestTimeout 1 (run [Start piped, Send] (newClient :: string client))) = [] \<and>
   handleMessage answer1 (requestTimeout 1 (run [Start piped, Send] newClient)) =
     requestTimeout 1 (run [Start piped, Send] newClient)"
proof -
  have p: "map_of (pendingRequests (run [Start piped, Send] (newClient :: string client))) 1 \<noteq> None"
    by (simp add: demo_run)
  have e: "pendingRequests (requestTimeout 1 (run [Start piped, Send] (newClient :: string client))) = []"
    by (simp add: requestTimeout_def demo_run)
  have r: "run [] c = c" for c :: "string client"
    by (simp add: run_def)
  have i: "msgId answer1 = Some 1"
    by (simp add: answer1_def)
  from C8_timeout_rejects [OF refl p] have
    "promises (requestTimeout 1 (run [Start piped, Send] (newClient :: string client))) 1 =
       Some (Rejected ''MCP request timeout'')"
    and "\<And>later m. msgId m = Some 1 \<Longrightarrow>
            handleMessage m (run later (requestTimeout 1 (run [Start piped, Send] (newClient :: string client)))) =
              run later (requestTimeout 1 (run [Start piped, Send] newClient))"
    by blast+
  from this(1) this(2) [OF i, of "[]"] p e show ?thesis
    by (simp add: r)
qed

text \<open>
  C9: in every state the client reaches, the exit of the child clears the process handle,
  rejects the promise of every outstanding request with "MCP server exited", leaves the
  other promises as they are, and empties the pending map; the next \<open>start\<close> then
  stores a new child.
\<close>

theorem C9_exit_fails_all:
  assumes "c = run es newClient"
  shows "process (onExit c) = None \<and>
         pendingRequests (onExit c) = [] \<and>
         list_all (\<lambda>(i, p). promises (onExit c) i = Some (Rejected ''MCP server exited''))
           (pendingRequests c) \<and>
         (\<forall>q. q \<notin> fst ` set (pendingRequests c) \<longrightarrow> promises (onExit c) q = promises c q) \<and>
         process (snd (start ch (onExit c))) = Some ch"
proof -
  have inv: "consistent c"
    unfolding assms by (rule consistent_run [OF consistent_newClient])
  have same: "snd ` set (pendingRequests c) = fst ` set (pendingRequests c)"
    using consistentD(1) [OF inv] by force
  have rej: "promises (onExit c) i = Some (Rejected ''MCP server exited'')"
    if "(i, p) \<in> set (pendingRequests c)" for i p
  proof -
    from consistentD(1) [OF inv that] have "p = i" "promises c i = Some Pending"
      by auto
    moreover have "i \<in> snd ` set (pendingRequests c)"
      using that \<open>p = i\<close> by force
    ultimately show ?thesis
      by (simp add: onExit_fields)
  qed
  have others: "promises (onExit c) q = promises c q" if "q \<notin> fst ` set (pendingRequests c)" for q
    using that same by (simp add: onExit_fields)
  have relaunch: "process (snd (start ch (onExit c))) = Some ch"
    by (simp add: start_def onExit_fields Let_def)
  show ?thesis
    using rej others relaunch by (auto simp: onExit_fields list_all_iff)
qed

lemma demo_run2:
  "pendingRequests (run [Start piped, Send, Send] newClient) = [(1, 1), (2, 2)]"
  by (simp add: run_def start_def sendRequest_def newClient_def piped_def Let_def)

theorem C9_exit_fails_all_witness:
  "pendingRequests (run [Start piped, Send, Send] (newClient :: string client)) = [(1, 1), (2, 2)] \<and>
   process (onExit (run [Start piped, Send, Send] (newClient :: string client))) = None \<and>
   pendingRequests (onExit (run [Start piped, Send, Send] (newClient :: string client))) = [] \<and>
   promises (onExit (run [Start piped, Send, Send] (newClient :: string client))) 1 =
     Some (Rejected ''MCP server exited'') \<and>
   promises (onExit (run [Start piped, Send, Send] (newClient :: string client))) 2 =
     Some (Rejected ''MCP server exited'') \<and>
   process (snd (start piped (onExit (run [Start piped, Send, Send] (newClient :: string client))))) = Some piped"
  using C9_exit_fails_all [OF refl, of "[Start piped, Send, Send] :: string event list" piped]
  by (simp add: demo_run2)

end
